theory Spec2Isabelle
  imports Main "HOL-Library.AList"
begin

section \<open>JavaScript values used by the proxy code\<close>

text \<open>
  Strings are \<open>string\<close> (one \<open>char\<close> per code unit; the code points the proxy code
  inspects are all ASCII).  A property that may be absent (\<open>undefined\<close>) is a
  \<open>string option\<close>.  JavaScript's \<open>a || b\<close> on such values takes \<open>b\<close> when \<open>a\<close> is
  \<open>undefined\<close> or the empty string.
\<close>

definition truthy :: "string option \<Rightarrow> bool" where
  "truthy v = (case v of None \<Rightarrow> False | Some s \<Rightarrow> s \<noteq> [])"

definition js_or :: "string option \<Rightarrow> string option \<Rightarrow> string option" where
  "js_or a b = (if truthy a then a else b)"

definition startsWith :: "string \<Rightarrow> string \<Rightarrow> bool" where
  "startsWith s p = (take (length p) s = p)"

definition endsWith :: "string \<Rightarrow> string \<Rightarrow> bool" where
  "endsWith s p = (length p \<le> length s \<and> drop (length s - length p) s = p)"

text \<open>\<open>Math.ceil(x / d)\<close> for integers \<open>x\<close> and a positive integer \<open>d\<close>.\<close>

definition ceil_div :: "int \<Rightarrow> int \<Rightarrow> int" where
  "ceil_div x d = - ((- x) div d)"

section \<open>The inbound request\<close>

record request =
  req_method :: string
  query_url :: "string option"
  query_test :: "string option"
  hdr_x_forwarded_for :: "string option"
  hdr_x_real_ip :: "string option"
  hdr_x_forwarded_proto :: "string option"
  hdr_host :: "string option"
  remoteAddress :: "string option"

section \<open>Admission control: class RateLimiter (pages/api/utils/rateLimiter.js)\<close>

record client =
  count :: nat
  resetTime :: int

record limiter_options =
  windowMs :: int
  opt_max :: nat
  statusCode :: nat
  keyGenerator :: "request \<Rightarrow> string"
  skip :: "request \<Rightarrow> bool"

type_synonym requests = "string \<rightharpoonup> client"



text \<open>
  \<open>getClient(key)\<close>, with the reading \<open>now\<close> of \<open>Date.now()\<close> passed in.  The record it
  returns is the object stored in the map, so the map after the call holds it.
\<close>

definition getClient :: "limiter_options \<Rightarrow> int \<Rightarrow> string \<Rightarrow> requests \<Rightarrow> client \<times> requests" where
  "getClient opts now key m =
     (let c0 = (case m key of
                  None \<Rightarrow> \<lparr> count = 0, resetTime = now + windowMs opts \<rparr>
                | Some c \<Rightarrow> c);
          c1 = (if now > resetTime c0
                then c0 \<lparr> count := 0, resetTime := now + windowMs opts \<rparr>
                else c0)
      in (c1, m(key \<mapsto> c1)))"

datatype check_result =
    Skipped
  | Result (limited: bool) (remaining: int) (total: nat) (retryAfter: int) (res_resetTime: int)


text \<open>
  \<open>check(req)\<close>.  \<open>Date.now()\<close> is read twice: \<open>now1\<close> inside \<open>getClient\<close>, \<open>now2\<close>
  afterwards for \<open>retryAfter\<close>.
\<close>

definition check ::
  "limiter_options \<Rightarrow> int \<Rightarrow> int \<Rightarrow> request \<Rightarrow> requests \<Rightarrow> check_result \<times> requests" where
  "check opts now1 now2 req m =
     (if skip opts req then (Skipped, m)
      else
        let key = keyGenerator opts req;
            (c, m1) = getClient opts now1 key m;
            c' = c \<lparr> count := count c + 1 \<rparr>;
            m2 = m1(key \<mapsto> c');
            rem = max 0 (int (opt_max opts) - int (count c'));
            retry = ceil_div (resetTime c' - now2) 1000
        in (Result (count c' > opt_max opts) rem (opt_max opts) retry (resetTime c'), m2))"



text \<open>A request of client \<open>203.0.113.7\<close>, used in the examples.\<close>

definition req0 :: request where
  "req0 = \<lparr>req_method=''GET'', query_url=None, query_test=None, hdr_x_forwarded_for=Some ''203.0.113.7'', hdr_x_real_ip=None, hdr_x_forwarded_proto=None, hdr_host=None, remoteAddress=None\<rparr>"

section \<open>Header Sanitizer: class HeaderProcessor\<close>

datatype js_error = TypeError | URIError | InvalidURL | ParseError

text \<open>
  A header value is a string or, for a repeated header, an array of strings.  \<open>JBoxed s\<close>
  is the \<open>String\<close> object that \<open>Object(s)\<close> returns for a primitive string \<open>s\<close>.
\<close>

datatype jsval = JStr string | JArr "string list" | JBoxed string

text \<open>
  \<open>String.prototype.toLowerCase\<close> on the code units of \<open>string\<close>: the ASCII capitals and
  the capitals of the Latin-1 block move up by 32.
\<close>

definition toLowerCase_char :: "char \<Rightarrow> char" where
  "toLowerCase_char c =
     (let n = (of_char c :: nat)
      in if (65 \<le> n \<and> n \<le> 90) \<or> (192 \<le> n \<and> n \<le> 222 \<and> n \<noteq> 215)
         then char_of (n + 32) else c)"

definition toLowerCase :: "string \<Rightarrow> string" where
  "toLowerCase s = map toLowerCase_char s"

definition headersToRemove :: "string list" where
  "headersToRemove =
     [''x-frame-options'',
      ''content-security-policy'',
      ''content-security-policy-report-only'',
      ''x-content-security-policy'',
      ''x-webkit-csp'',
      ''strict-transport-security'',
      ''public-key-pins'',
      ''public-key-pins-report-only'',
      ''x-xss-protection'',
      ''x-content-type-options'',
      ''referrer-policy'',
      ''feature-policy'',
      ''permissions-policy'',
      ''cross-origin-embedder-policy'',
      ''cross-origin-opener-policy'',
      ''cross-origin-resource-policy'',
      ''x-permitted-cross-domain-policies'']"

definition headersToPreserve :: "string list" where
  "headersToPreserve =
     [''content-type'',
      ''content-length'',
      ''content-encoding'',
      ''cache-control'',
      ''expires'',
      ''last-modified'',
      ''etag'',
      ''content-language'',
      ''content-disposition'']"

text \<open>
  \<open>this.headersToModify\<close> is the object literal
  \<open>{ 'set-cookie': this.processCookies, 'location': this.processLocation }\<close>, and the code
  reads it with \<open>this.headersToModify[lowerKey]\<close>.  A property read on an object literal
  also finds what the object inherits from \<open>Object.prototype\<close>.  Of the inherited names
  only two consist of lower-case characters and so can equal a lower-cased header name:
  \<open>constructor\<close> (the function \<open>Object\<close>) and \<open>__proto__\<close> (the object
  \<open>Object.prototype\<close>, which is not callable).  Both are truthy.
\<close>

datatype modifier = ProcessCookies | ProcessLocation | ObjectConstructor | ObjectPrototype

definition headersToModify :: "string \<Rightarrow> modifier option" where
  "headersToModify lowerKey =
     (if lowerKey = ''set-cookie'' then Some ProcessCookies
      else if lowerKey = ''location'' then Some ProcessLocation
      else if lowerKey = ''constructor'' then Some ObjectConstructor
      else if lowerKey = ''__proto__'' then Some ObjectPrototype
      else None)"

text \<open>\<open>processCookies(cookies)\<close> returns \<open>null\<close>, here \<open>None\<close>.\<close>

definition processCookies :: "jsval \<Rightarrow> jsval option" where
  "processCookies cookies = None"

text \<open>
  \<open>processLocation(location)\<close>.  \<open>encodeURIComponent\<close> is a built-in of the runtime and is
  a parameter \<open>enc\<close> here; it returns \<open>None\<close> where the built-in throws \<open>URIError\<close>.  An
  array has no \<open>startsWith\<close>, so the call throws \<open>TypeError\<close>; every exception is caught
  and the location is returned as it is.
\<close>

definition processLocation :: "(string \<Rightarrow> string option) \<Rightarrow> jsval \<Rightarrow> jsval" where
  "processLocation enc location =
     (case location of
        JStr s \<Rightarrow>
          if s \<noteq> [] then
            (if startsWith s ''http://'' \<or> startsWith s ''https://''
             then (case enc s of
                     Some e \<Rightarrow> JStr (''/api/proxy?url='' @ e)
                   | None \<Rightarrow> location)
             else location)
          else location
      | JArr a \<Rightarrow> location
      | JBoxed s \<Rightarrow>
          (if startsWith s ''http://'' \<or> startsWith s ''https://''
             then (case enc s of
                     Some e \<Rightarrow> JStr (''/api/proxy?url='' @ e)
                   | None \<Rightarrow> location)
             else location))"

text \<open>
  \<open>this.headersToModify[lowerKey](value)\<close>: the result is \<open>Some v\<close> for a value, \<open>None\<close>
  for \<open>null\<close>, and an error where the call throws.  \<open>Object(value)\<close> boxes a primitive
  string and returns an object (an array, a \<open>String\<close> object) as it is.
\<close>

definition call_modifier ::
  "(string \<Rightarrow> string option) \<Rightarrow> modifier \<Rightarrow> jsval \<Rightarrow> js_error + jsval option" where
  "call_modifier enc f v =
     (case f of
        ProcessCookies \<Rightarrow> Inr (processCookies v)
      | ProcessLocation \<Rightarrow> Inr (Some (processLocation enc v))
      | ObjectConstructor \<Rightarrow> Inr (Some (case v of JStr s \<Rightarrow> JBoxed s | _ \<Rightarrow> v))
      | ObjectPrototype \<Rightarrow> Inl TypeError)"

text \<open>
  A header object is the list of its entries, in the order \<open>Object.entries\<close> gives them;
  \<open>processedHeaders[key] = value\<close> is \<open>AList.update\<close>.
\<close>

type_synonym headers = "(string \<times> jsval) list"

text \<open>The body of the callback of \<open>Object.entries(headers).forEach\<close>.\<close>

definition processHeader ::
  "(string \<Rightarrow> string option) \<Rightarrow> string \<times> jsval \<Rightarrow> headers \<Rightarrow> js_error + headers" where
  "processHeader enc kv processedHeaders =
     (let key = fst kv; v = snd kv; lowerKey = toLowerCase key
      in if lowerKey \<in> set headersToRemove then Inr processedHeaders
         else
           (case headersToModify lowerKey of
              Some f \<Rightarrow>
                (case call_modifier enc f v of
                   Inl e \<Rightarrow> Inl e
                 | Inr None \<Rightarrow> Inr processedHeaders
                 | Inr (Some modifiedValue) \<Rightarrow>
                     Inr (AList.update key modifiedValue processedHeaders))
            | None \<Rightarrow>
                if lowerKey \<in> set headersToPreserve
                then Inr (AList.update key v processedHeaders)
                else Inr processedHeaders))"

fun forEach_header ::
  "(string \<Rightarrow> string option) \<Rightarrow> headers \<Rightarrow> headers \<Rightarrow> js_error + headers" where
  "forEach_header enc [] processedHeaders = Inr processedHeaders"
| "forEach_header enc (kv # rest) processedHeaders =
     (case processHeader enc kv processedHeaders of
        Inl e \<Rightarrow> Inl e
      | Inr processedHeaders' \<Rightarrow> forEach_header enc rest processedHeaders')"

definition addCustomHeaders :: "headers \<Rightarrow> headers" where
  "addCustomHeaders processedHeaders =
     AList.update ''Access-Control-Allow-Headers'' (JStr ''Content-Type'')
       (AList.update ''Access-Control-Allow-Methods'' (JStr ''GET, POST, OPTIONS'')
         (AList.update ''Access-Control-Allow-Origin'' (JStr ''*'')
           (AList.update ''X-Robots-Tag'' (JStr ''noindex, nofollow'')
             (AList.update ''X-Proxied'' (JStr ''true'') processedHeaders))))"

definition processResponseHeaders ::
  "(string \<Rightarrow> string option) \<Rightarrow> headers \<Rightarrow> js_error + headers" where
  "processResponseHeaders enc hdrs =
     (case forEach_header enc hdrs [] of
        Inl e \<Rightarrow> Inl e
      | Inr processedHeaders \<Rightarrow> Inr (addCustomHeaders processedHeaders))"

text \<open>The names of the headers of a sanitized response, and the five headers always added.\<close>

definition header_names :: "headers \<Rightarrow> string set" where
  "header_names h = fst ` set h"

definition customHeaders :: headers where
  "customHeaders =
     [(''X-Proxied'', JStr ''true''),
      (''X-Robots-Tag'', JStr ''noindex, nofollow''),
      (''Access-Control-Allow-Origin'', JStr ''*''),
      (''Access-Control-Allow-Methods'', JStr ''GET, POST, OPTIONS''),
      (''Access-Control-Allow-Headers'', JStr ''Content-Type'')]"

section \<open>URLs and the primitives of the runtime\<close>

text \<open>
  The fields of a parsed \<open>URL\<close> object that the code reads.  \<open>protocol\<close> ends with the
  colon (\<open>https:\<close>), \<open>host\<close> is host name and port, \<open>port\<close> is empty or a decimal number,
  \<open>origin\<close> is scheme, host and port.
\<close>

record url =
  protocol :: string
  host :: string
  hostname :: string
  port :: string
  pathname :: string
  origin :: string

text \<open>
  \<open>str.lastIndexOf(c)\<close> is \<open>-1\<close> when \<open>c\<close> does not occur; \<open>str.substring(0, n)\<close>.
\<close>

definition lastIndexOf :: "string \<Rightarrow> char \<Rightarrow> int" where
  "lastIndexOf s c =
     fst (foldl (\<lambda>(found, i) x. (if x = c then i else found, i + 1)) (- 1, 0) s)"

definition substring0 :: "string \<Rightarrow> int \<Rightarrow> string" where
  "substring0 s n = take (nat n) s"

text \<open>White space as \<open>trim()\<close> and the class \<open>\s\<close> see it, among the code units of \<open>string\<close>.\<close>

definition is_ws :: "char \<Rightarrow> bool" where
  "is_ws c = (of_char c \<in> {9, 10, 11, 12, 13, 32, 160 :: nat})"

definition trim :: "string \<Rightarrow> string" where
  "trim s = rev (dropWhile is_ws (rev (dropWhile is_ws s)))"

text \<open>\<open>str.split(',')\<close>, \<open>str.split(/\s+/)\<close> and \<open>parts.join(sep)\<close>.\<close>

fun split_char :: "char \<Rightarrow> string \<Rightarrow> string list" where
  "split_char c [] = [[]]"
| "split_char c (x # xs) =
     (if x = c then [] # split_char c xs
      else (case split_char c xs of
              [] \<Rightarrow> [[x]]
            | y # ys \<Rightarrow> (x # y) # ys))"

function split_ws :: "string \<Rightarrow> string list" where
  "split_ws [] = [[]]"
| "split_ws (x # xs) =
     (if is_ws x then [] # split_ws (dropWhile is_ws xs)
      else (case split_ws xs of
              [] \<Rightarrow> [[x]]
            | y # ys \<Rightarrow> (x # y) # ys))"
  by pat_completeness auto
termination
  by (relation "measure length") (auto simp: length_dropWhile_le less_Suc_eq_le)

fun join :: "string \<Rightarrow> string list \<Rightarrow> string" where
  "join sep [] = []"
| "join sep [p] = p"
| "join sep (p # q # ps) = p @ sep @ join sep (q # ps)"

section \<open>Content Rewriter: class HtmlModifier\<close>

text \<open>
  \<open>isAbsoluteUrl(url)\<close> tests \<open>/^https?:\/\//\<close> or \<open>/^\/\//\<close>; \<open>isDataUri(url)\<close> tests
  \<open>/^data:/\<close>.  The tests are case-sensitive.
\<close>

definition isAbsoluteUrl :: "string \<Rightarrow> bool" where
  "isAbsoluteUrl u = ((startsWith u ''http://'' \<or> startsWith u ''https://'') \<or> startsWith u ''//'')"

definition isDataUri :: "string \<Rightarrow> bool" where
  "isDataUri u = startsWith u ''data:''"

text \<open>
  \<open>resolveUrl(relativeUrl, baseUrl, parsedUrl)\<close>.  The constructor call
  \<open>new URL(relativeUrl, base).href\<close> belongs to the runtime and is the parameter
  \<open>href_of\<close>; it gives \<open>None\<close> where the constructor throws, and then the code returns
  the relative URL as it is.
\<close>

definition resolveUrl ::
  "(string \<Rightarrow> string \<Rightarrow> string option) \<Rightarrow> string \<Rightarrow> string \<Rightarrow> url \<Rightarrow> string" where
  "resolveUrl href_of relativeUrl baseUrl parsedUrl =
     (if startsWith relativeUrl ''//'' then protocol parsedUrl @ relativeUrl
      else if startsWith relativeUrl ''/'' then baseUrl @ relativeUrl
      else
        let currentPath =
              (if endsWith (pathname parsedUrl) ''/'' then pathname parsedUrl
               else substring0 (pathname parsedUrl)
                      (lastIndexOf (pathname parsedUrl) (CHR ''/'') + 1))
        in (case href_of relativeUrl (baseUrl @ currentPath) of
              Some h \<Rightarrow> h
            | None \<Rightarrow> relativeUrl))"

text \<open>\<open>fixSrcset(srcset, baseUrl, parsedUrl)\<close>\<close>

definition fixSrcset_part ::
  "(string \<Rightarrow> string \<Rightarrow> string option) \<Rightarrow> string \<Rightarrow> url \<Rightarrow> string \<Rightarrow> string" where
  "fixSrcset_part href_of baseUrl parsedUrl src =
     (case split_ws (trim src) of
        [] \<Rightarrow> []
      | p # ps \<Rightarrow>
          join '' ''
            ((if \<not> isAbsoluteUrl p \<and> \<not> isDataUri p
              then resolveUrl href_of p baseUrl parsedUrl else p) # ps))"

definition fixSrcset ::
  "(string \<Rightarrow> string \<Rightarrow> string option) \<Rightarrow> string \<Rightarrow> string \<Rightarrow> url \<Rightarrow> string" where
  "fixSrcset href_of srcset baseUrl parsedUrl =
     join '', '' (map (fixSrcset_part href_of baseUrl parsedUrl) (split_char (CHR '','') srcset))"

text \<open>
  \<open>fixCssUrls(css, baseUrl, parsedUrl)\<close> replaces every match of
  \<open>/url\(['"]?([^'")]+)['"]?\)/g\<close>.  \<open>match_css_url s\<close> matches the expression at the
  start of \<open>s\<close> and gives the captured URL and the length of the match; the expression
  has one way to match at a position, so no backtracking is lost.
\<close>

definition is_quote :: "char \<Rightarrow> bool" where
  "is_quote c = (c = CHR 0x27 \<or> c = CHR 0x22)"

definition match_css_url :: "string \<Rightarrow> (string \<times> nat) option" where
  "match_css_url s =
     (if startsWith s ''url('' then
        let r1 = drop 4 s;
            r2 = (case r1 of c # cs \<Rightarrow> if is_quote c then cs else r1 | [] \<Rightarrow> r1);
            u = takeWhile (\<lambda>c. \<not> is_quote c \<and> c \<noteq> CHR '')'') r2;
            r3 = dropWhile (\<lambda>c. \<not> is_quote c \<and> c \<noteq> CHR '')'') r2;
            r4 = (case r3 of c # cs \<Rightarrow> if is_quote c then cs else r3 | [] \<Rightarrow> r3)
        in (case r4 of
              c # cs \<Rightarrow> if u \<noteq> [] \<and> c = CHR '')'' then Some (u, length s - length cs) else None
            | [] \<Rightarrow> None)
      else None)"

definition css_replacer ::
  "(string \<Rightarrow> string \<Rightarrow> string option) \<Rightarrow> string \<Rightarrow> url \<Rightarrow> string \<Rightarrow> string \<Rightarrow> string" where
  "css_replacer href_of baseUrl parsedUrl matched u =
     (if \<not> isAbsoluteUrl u \<and> \<not> isDataUri u
      then ''url('' @ [CHR 0x27] @ resolveUrl href_of u baseUrl parsedUrl @ [CHR 0x27] @ '')''
      else matched)"

text \<open>The global replace; the first argument counts the characters of a match still to skip.\<close>

fun css_scan ::
  "(string \<Rightarrow> string \<Rightarrow> string option) \<Rightarrow> string \<Rightarrow> url \<Rightarrow> nat \<Rightarrow> string \<Rightarrow> string" where
  "css_scan href_of baseUrl parsedUrl n [] = []"
| "css_scan href_of baseUrl parsedUrl (Suc n) (c # cs) = css_scan href_of baseUrl parsedUrl n cs"
| "css_scan href_of baseUrl parsedUrl 0 (c # cs) =
     (case match_css_url (c # cs) of
        Some (u, len) \<Rightarrow>
          css_replacer href_of baseUrl parsedUrl (take len (c # cs)) u
            @ css_scan href_of baseUrl parsedUrl (len - 1) cs
      | None \<Rightarrow> c # css_scan href_of baseUrl parsedUrl 0 cs)"

definition fixCssUrls ::
  "(string \<Rightarrow> string \<Rightarrow> string option) \<Rightarrow> string \<Rightarrow> string \<Rightarrow> url \<Rightarrow> string" where
  "fixCssUrls href_of css baseUrl parsedUrl = css_scan href_of baseUrl parsedUrl 0 css"

section \<open>The document model of the HTML rewriter\<close>

text \<open>
  The rewriter works on the document that \<open>cheerio.load\<close> builds.  A document is the list
  of the children of its root; an element has a tag name, its attributes (names are
  unique, \<open>$elem.attr(name, value)\<close> is \<open>AList.update\<close>) and its children.
\<close>

datatype node =
    Element string "(string \<times> string) list" "node list"
  | Text string
  | Comment string

type_synonym document = "node list"

text \<open>
  The primitives of the parsing library and of the runtime that the rewriter calls:
  \<open>load\<close> is \<open>cheerio.load(html, ...)\<close> (\<open>None\<close> where it throws), \<open>parseMarkup\<close> parses
  markup handed to \<open>prepend\<close> or \<open>html(...)\<close>, \<open>toHtml\<close> serialises nodes (\<open>$.html()\<close>,
  \<open>$elem.html()\<close>), \<open>parseURL\<close> is \<open>new URL(s)\<close> (\<open>None\<close> where it throws) and \<open>hrefOf\<close> is
  \<open>new URL(rel, base).href\<close>.
\<close>

record dom_env =
  load :: "string \<Rightarrow> document option"
  parseMarkup :: "string \<Rightarrow> node list"
  toHtml :: "node list \<Rightarrow> string"
  parseURL :: "string \<Rightarrow> url option"
  hrefOf :: "string \<Rightarrow> string \<Rightarrow> string option"

text \<open>\<open>$(tag).length\<close>: the number of elements with that tag name, at any depth.\<close>

fun count_tag :: "string \<Rightarrow> node \<Rightarrow> nat" where
  "count_tag t (Element t' as cs) = (if t' = t then 1 else 0) + sum_list (map (count_tag t) cs)"
| "count_tag t (Text s) = 0"
| "count_tag t (Comment s) = 0"

definition count_tags :: "string \<Rightarrow> document \<Rightarrow> nat" where
  "count_tags t d = sum_list (map (count_tag t) d)"

text \<open>\<open>$(tag).append(nodes)\<close> and \<open>$(tag).prepend(nodes)\<close>: every matched element gets a copy.\<close>

fun append_to :: "string \<Rightarrow> node list \<Rightarrow> node \<Rightarrow> node" where
  "append_to t new (Element t' as cs) =
     Element t' as (map (append_to t new) cs @ (if t' = t then new else []))"
| "append_to t new (Text s) = Text s"
| "append_to t new (Comment s) = Comment s"

fun prepend_to :: "string \<Rightarrow> node list \<Rightarrow> node \<Rightarrow> node" where
  "prepend_to t new (Element t' as cs) =
     Element t' as ((if t' = t then new else []) @ map (prepend_to t new) cs)"
| "prepend_to t new (Text s) = Text s"
| "prepend_to t new (Comment s) = Comment s"

text \<open>
  \<open>$(selector).each(...)\<close> where the callback only rewrites the attributes of the element it
  is given: \<open>f tag attributes\<close> gives the new attributes.
\<close>

fun map_attribs :: "(string \<Rightarrow> (string \<times> string) list \<Rightarrow> (string \<times> string) list) \<Rightarrow> node \<Rightarrow> node" where
  "map_attribs f (Element t as cs) = Element t (f t as) (map (map_attribs f) cs)"
| "map_attribs f (Text s) = Text s"
| "map_attribs f (Comment s) = Comment s"

text \<open>
  The markup of \<open>widgetScript\<close> and of \<open>navigationHandler\<close>, and the nodes it parses to.
\<close>

definition widgetScript :: string where
  "widgetScript = ''<script src=\"/widget.js\" data-injected=\"true\"></script>''"

definition widgetScript_nodes :: "node list" where
  "widgetScript_nodes =
     [Element ''script'' [(''src'', ''/widget.js''), (''data-injected'', ''true'')] []]"

definition navigationHandler_code :: string where
  "navigationHandler_code = concat (map (\<lambda>l. l @ [CHR 0x0A])
     ['''',
      ''        (function() {'',
      ''          // Override link clicks to stay within proxy'',
      ''          document.addEventListener('' @ [CHR 0x27] @ ''click'' @ [CHR 0x27] @ '', function(e) {'',
      ''            const link = e.target.closest('' @ [CHR 0x27] @ ''a'' @ [CHR 0x27] @ '');'',
      ''            if (link && link.href && !link.href.startsWith('' @ [CHR 0x27] @ ''javascript:'' @ [CHR 0x27] @ '')) {'',
      ''              e.preventDefault();'',
      ''              const targetUrl = link.href;'',
      ''              const proxyUrl = '' @ [CHR 0x27] @ ''/api/proxy?url='' @ [CHR 0x27] @ '' + encodeURIComponent(targetUrl);'',
      ''              window.location.href = proxyUrl;'',
      ''            }'',
      ''          });'',
      '''',
      ''          // Override form submissions'',
      ''          document.addEventListener('' @ [CHR 0x27] @ ''submit'' @ [CHR 0x27] @ '', function(e) {'',
      ''            const form = e.target;'',
      ''            if (form && form.action) {'',
      ''              e.preventDefault();'',
      ''              console.warn('' @ [CHR 0x27] @ ''Form submission through proxy is limited'' @ [CHR 0x27] @ '');'',
      ''            }'',
      ''          });'',
      ''        })();'']) @ ''      ''"

definition navigationHandler_nodes :: "node list" where
  "navigationHandler_nodes =
     [Text ([CHR 0x0A] @ ''      ''),
      Element ''script'' [(''data-proxy-navigation'', ''true'')] [Text navigationHandler_code],
      Text ([CHR 0x0A] @ ''    '')]"

text \<open>\<open>injectWidget($)\<close>\<close>

definition injectWidget :: "document \<Rightarrow> document" where
  "injectWidget d =
     (let d1 = (if count_tags ''body'' d > 0 then map (append_to ''body'' widgetScript_nodes) d
                else if count_tags ''html'' d > 0 then map (append_to ''html'' widgetScript_nodes) d
                else d @ widgetScript_nodes)
      in map (append_to ''body'' navigationHandler_nodes) d1)"

text \<open>\<open>fixUrls($, baseUrl, parsedUrl)\<close>: the table, the attribute loop, the two style loops.\<close>

definition urlAttributes :: "(string \<times> string list) list" where
  "urlAttributes =
     [(''href'', [''a'', ''link'', ''area'', ''base'']),
      (''src'', [''img'', ''script'', ''iframe'', ''frame'', ''embed'', ''source'', ''input'',
                 ''audio'', ''video'', ''track'']),
      (''action'', [''form'']),
      (''data'', [''object'']),
      (''srcset'', [''img'', ''source'']),
      (''poster'', [''video''])]"

text \<open>The callback of \<open>$(`${tag}[${attr}]`).each\<close>, on the attributes of one element.\<close>

definition fixAttr ::
  "dom_env \<Rightarrow> string \<Rightarrow> url \<Rightarrow> string \<Rightarrow> string \<Rightarrow> string \<Rightarrow> (string \<times> string) list \<Rightarrow>
   (string \<times> string) list" where
  "fixAttr env baseUrl parsedUrl attr tag t as =
     (if t = tag then
        (case map_of as attr of
           Some v \<Rightarrow>
             if v \<noteq> [] \<and> \<not> isDataUri v \<and> \<not> isAbsoluteUrl v
             then AList.update attr
                    (if attr = ''srcset'' then fixSrcset (hrefOf env) v baseUrl parsedUrl
                     else resolveUrl (hrefOf env) v baseUrl parsedUrl) as
             else as
         | None \<Rightarrow> as)
      else as)"

definition fixUrlAttributes :: "dom_env \<Rightarrow> string \<Rightarrow> url \<Rightarrow> document \<Rightarrow> document" where
  "fixUrlAttributes env baseUrl parsedUrl d =
     fold (\<lambda>(attr, tags) d1.
             fold (\<lambda>tag d2. map (map_attribs (fixAttr env baseUrl parsedUrl attr tag)) d2) tags d1)
          urlAttributes d"

definition fixStyleAttr ::
  "dom_env \<Rightarrow> string \<Rightarrow> url \<Rightarrow> string \<Rightarrow> (string \<times> string) list \<Rightarrow> (string \<times> string) list" where
  "fixStyleAttr env baseUrl parsedUrl t as =
     (case map_of as ''style'' of
        Some style \<Rightarrow>
          if style \<noteq> []
          then AList.update ''style'' (fixCssUrls (hrefOf env) style baseUrl parsedUrl) as
          else as
      | None \<Rightarrow> as)"

text \<open>
  \<open>$('style').each\<close>: the children of a style element with non-empty content are replaced
  by what \<open>$elem.html(css)\<close> parses the rewritten text to.
\<close>

fun fixStyleElements :: "dom_env \<Rightarrow> string \<Rightarrow> url \<Rightarrow> node \<Rightarrow> node" where
  "fixStyleElements env baseUrl parsedUrl (Element t as cs) =
     (if t = ''style'' \<and> toHtml env cs \<noteq> []
      then Element t as (parseMarkup env (fixCssUrls (hrefOf env) (toHtml env cs) baseUrl parsedUrl))
      else Element t as (map (fixStyleElements env baseUrl parsedUrl) cs))"
| "fixStyleElements env baseUrl parsedUrl (Text s) = Text s"
| "fixStyleElements env baseUrl parsedUrl (Comment s) = Comment s"

definition fixUrls :: "dom_env \<Rightarrow> string \<Rightarrow> url \<Rightarrow> document \<Rightarrow> document" where
  "fixUrls env baseUrl parsedUrl d =
     map (fixStyleElements env baseUrl parsedUrl)
       (map (map_attribs (fixStyleAttr env baseUrl parsedUrl))
         (fixUrlAttributes env baseUrl parsedUrl d))"

text \<open>\<open>addBaseTag($, targetUrl)\<close>\<close>

definition addBaseTag :: "dom_env \<Rightarrow> string \<Rightarrow> document \<Rightarrow> document" where
  "addBaseTag env targetUrl d =
     (if count_tags ''base'' d = 0
      then map (prepend_to ''head'' (parseMarkup env (''<base href=\"'' @ targetUrl @ ''\">''))) d
      else d)"

text \<open>
  \<open>modifyForms($, targetUrl)\<close>.  The callback parses \<open>targetUrl\<close> again for every form whose
  action is not absolute; the parse gives the same result each time, so it is made once
  and the loop fails iff it fails and some form needs it.
\<close>

definition form_needs_url :: "string \<Rightarrow> (string \<times> string) list \<Rightarrow> bool" where
  "form_needs_url t as =
     (t = ''form'' \<and> (case map_of as ''action'' of
                        Some action \<Rightarrow> action \<noteq> [] \<and> \<not> isAbsoluteUrl action
                      | None \<Rightarrow> False))"

fun any_element :: "(string \<Rightarrow> (string \<times> string) list \<Rightarrow> bool) \<Rightarrow> node \<Rightarrow> bool" where
  "any_element P (Element t as cs) = (P t as \<or> list_ex (any_element P) cs)"
| "any_element P (Text s) = False"
| "any_element P (Comment s) = False"

definition modifyForm ::
  "dom_env \<Rightarrow> url \<Rightarrow> string \<Rightarrow> (string \<times> string) list \<Rightarrow> (string \<times> string) list" where
  "modifyForm env parsedUrl t as =
     (if t = ''form'' then
        (let as1 = AList.update ''data-proxied'' ''true'' as
         in (case map_of as1 ''action'' of
               Some action \<Rightarrow>
                 if action \<noteq> [] \<and> \<not> isAbsoluteUrl action
                 then AList.update ''action''
                        (resolveUrl (hrefOf env) action
                           (protocol parsedUrl @ ''//'' @ host parsedUrl) parsedUrl) as1
                 else as1
             | None \<Rightarrow> as1))
      else as)"

definition modifyForms :: "dom_env \<Rightarrow> string \<Rightarrow> document \<Rightarrow> js_error + document" where
  "modifyForms env targetUrl d =
     (case parseURL env targetUrl of
        Some parsedUrl \<Rightarrow> Inr (map (map_attribs (modifyForm env parsedUrl)) d)
      | None \<Rightarrow>
          if list_ex (any_element form_needs_url) d then Inl InvalidURL
          else Inr (map (map_attribs (\<lambda>t as. if t = ''form''
                                              then AList.update ''data-proxied'' ''true'' as
                                              else as)) d))"

text \<open>
  \<open>modifyHtml(html, targetUrl)\<close>: \<open>modifyHtml_try\<close> is the body of the \<open>try\<close> block, with
  \<open>Inl\<close> for an exception; the \<open>catch\<close> block returns the original \<open>html\<close>.
\<close>

definition modifyDocument :: "dom_env \<Rightarrow> string \<Rightarrow> url \<Rightarrow> document \<Rightarrow> js_error + document" where
  "modifyDocument env targetUrl parsedUrl d =
     (let baseUrl = protocol parsedUrl @ ''//'' @ host parsedUrl;
          d1 = injectWidget d;
          d2 = fixUrls env baseUrl parsedUrl d1;
          d3 = addBaseTag env targetUrl d2
      in modifyForms env targetUrl d3)"

definition modifyHtml_try :: "dom_env \<Rightarrow> string \<Rightarrow> string \<Rightarrow> js_error + string" where
  "modifyHtml_try env html targetUrl =
     (case load env html of
        None \<Rightarrow> Inl ParseError
      | Some d \<Rightarrow>
          (case parseURL env targetUrl of
             None \<Rightarrow> Inl InvalidURL
           | Some parsedUrl \<Rightarrow>
               (case modifyDocument env targetUrl parsedUrl d of
                  Inl e \<Rightarrow> Inl e
                | Inr d' \<Rightarrow> Inr (toHtml env d'))))"

definition modifyHtml :: "dom_env \<Rightarrow> string \<Rightarrow> string \<Rightarrow> string" where
  "modifyHtml env html targetUrl =
     (case modifyHtml_try env html targetUrl of
        Inl error \<Rightarrow> html
      | Inr modified \<Rightarrow> modified)"



text \<open>
  Positions in a document: \<open>node_at d p\<close> is the node reached from the root by the child
  indices \<open>p\<close>; \<open>tag_at\<close> and \<open>attr_at\<close> read the tag name and an attribute of the element
  there.
\<close>

fun node_at :: "node list \<Rightarrow> nat list \<Rightarrow> node option" where
  "node_at d [] = None"
| "node_at d [i] = (if i < length d then Some (d ! i) else None)"
| "node_at d (i # j # p) =
     (if i < length d
      then (case d ! i of Element t as cs \<Rightarrow> node_at cs (j # p) | _ \<Rightarrow> None)
      else None)"

definition tag_at :: "document \<Rightarrow> nat list \<Rightarrow> string option" where
  "tag_at d p = (case node_at d p of Some (Element t as cs) \<Rightarrow> Some t | _ \<Rightarrow> None)"

definition attr_at :: "document \<Rightarrow> nat list \<Rightarrow> string \<Rightarrow> string option" where
  "attr_at d p a = (case node_at d p of Some (Element t as cs) \<Rightarrow> map_of as a | _ \<Rightarrow> None)"

text \<open>The element and attribute pairs of the table, in the order the loops visit them.\<close>

definition url_passes :: "(string \<times> string) list" where
  "url_passes = concat (map (\<lambda>(attr, tags). map (Pair attr) tags) urlAttributes)"

text \<open>What the attribute loop writes for a value \<open>v\<close> of attribute \<open>a\<close> that it rewrites.\<close>

definition rewritten ::
  "dom_env \<Rightarrow> string \<Rightarrow> url \<Rightarrow> string \<Rightarrow> string \<Rightarrow> string" where
  "rewritten env baseUrl parsedUrl a v =
     (if a = ''srcset'' then fixSrcset (hrefOf env) v baseUrl parsedUrl
      else resolveUrl (hrefOf env) v baseUrl parsedUrl)"

text \<open>All passes of the attribute loop, on the attributes of one element with tag \<open>t\<close>.\<close>

definition fixAll :: "dom_env \<Rightarrow> string \<Rightarrow> url \<Rightarrow> string \<Rightarrow> (string \<times> string) list \<Rightarrow> (string \<times> string) list" where
  "fixAll env baseUrl parsedUrl t as =
     fold (\<lambda>(attr, tag) as'. fixAttr env baseUrl parsedUrl attr tag t as') url_passes as"

section \<open>The example environment\<close>

text \<open>
  The values of the primitives on the inputs of the examples below.  \<open>href_concat\<close> is
  what the \<open>URL\<close> constructor gives for a plain relative path (no scheme, no dot
  segments, no characters to escape) against a base that ends with a slash.
\<close>

definition href_concat :: "string \<Rightarrow> string \<Rightarrow> string option" where
  "href_concat rel base = Some (base @ rel)"

definition example_target :: string where
  "example_target = ''https://example.com/x/y''"

definition example_url :: url where
  "example_url = \<lparr> protocol = ''https:'', host = ''example.com'', hostname = ''example.com'',
                    port = [], pathname = ''/x/y'', origin = ''https://example.com'' \<rparr>"

definition example_html :: string where
  "example_html = ''<html><head></head><body>Hi</body></html>''"

definition example_doc :: document where
  "example_doc = [Element ''html'' [] [Element ''head'' [] [], Element ''body'' [] [Text ''Hi'']]]"

fun serialize :: "node \<Rightarrow> string" where
  "serialize (Element t as cs) =
     ''<'' @ t @ concat (map (\<lambda>(a, v). '' '' @ a @ ''=\"'' @ v @ ''\"'') as) @ ''>''
       @ concat (map serialize cs) @ ''</'' @ t @ ''>''"
| "serialize (Text s) = s"
| "serialize (Comment s) = ''<!--'' @ s @ ''-->''"

definition example_env :: dom_env where
  "example_env =
     \<lparr> load = (\<lambda>s. if s = example_html then Some example_doc else Some [Text s]),
       parseMarkup = (\<lambda>s. if s = ''<base href=\"https://example.com/x/y\">''
                          then [Element ''base'' [(''href'', ''https://example.com/x/y'')] []]
                          else [Text s]),
       toHtml = (\<lambda>ns. concat (map serialize ns)),
       parseURL = (\<lambda>s. if s = example_target then Some example_url else None),
       hrefOf = href_concat \<rparr>"

text \<open>A document with a relative, a protocol-relative and an absolute link.\<close>

definition links_doc :: document where
  "links_doc =
     [Element ''html'' []
        [Element ''body'' []
           [Element ''a'' [(''href'', ''/a'')] [],
            Element ''a'' [(''href'', ''//cdn.example.net/lib.js'')] [],
            Element ''a'' [(''href'', ''https://example.org/'')] [],
            Element ''img'' [(''src'', ''b.png'')] []]]]"

text \<open>The document of a result, empty where the rewrite failed.\<close>

definition the_doc :: "js_error + document \<Rightarrow> document" where
  "the_doc r = (case r of Inl e \<Rightarrow> [] | Inr d \<Rightarrow> d)"

section \<open>String replacement of the runtime\<close>

text \<open>
  \<open>str.replace(pattern, replacement)\<close> with a replacement string expands the patterns
  \<open>$$\<close>, \<open>$&\<close>, \<open>$`\<close>, \<open>$'\<close> and \<open>$n\<close>, \<open>$nn\<close> in it (the operation
  \<open>GetSubstitution\<close> of the language): \<open>expand matched pre post captures template\<close>.
  A two-digit index beyond the number of captures is read as a one-digit index followed
  by a digit; an index that names no capture stays as it is written.
\<close>

definition is_digit :: "char \<Rightarrow> bool" where
  "is_digit c = (48 \<le> (of_char c :: nat) \<and> (of_char c :: nat) \<le> 57)"

definition digit_val :: "char \<Rightarrow> nat" where
  "digit_val c = of_char c - 48"

fun expand :: "string \<Rightarrow> string \<Rightarrow> string \<Rightarrow> string list \<Rightarrow> string \<Rightarrow> string" where
  "expand matched pre post caps [] = []"
| "expand matched pre post caps [c] = [c]"
| "expand matched pre post caps (c # x # r) =
     (if c \<noteq> CHR ''$'' then c # expand matched pre post caps (x # r)
      else if x = CHR ''$'' then CHR ''$'' # expand matched pre post caps r
      else if x = CHR ''&'' then matched @ expand matched pre post caps r
      else if x = CHR 0x60 then pre @ expand matched pre post caps r
      else if x = CHR 0x27 then post @ expand matched pre post caps r
      else if is_digit x then
        (case r of
           y # r' \<Rightarrow>
             if is_digit y \<and> 1 \<le> 10 * digit_val x + digit_val y
                \<and> 10 * digit_val x + digit_val y \<le> length caps
             then caps ! (10 * digit_val x + digit_val y - 1) @ expand matched pre post caps r'
             else if 1 \<le> digit_val x \<and> digit_val x \<le> length caps
             then caps ! (digit_val x - 1) @ expand matched pre post caps r
             else CHR ''$'' # x # expand matched pre post caps r
         | [] \<Rightarrow>
             if 1 \<le> digit_val x \<and> digit_val x \<le> length caps
             then caps ! (digit_val x - 1)
             else [CHR ''$'', x])
      else CHR ''$'' # expand matched pre post caps (x # r))"

text \<open>\<open>str.indexOf(pat)\<close> as an option, and \<open>str.includes(pat)\<close>.\<close>

fun indexOf :: "string \<Rightarrow> string \<Rightarrow> nat option" where
  "indexOf [] pat = (if pat = [] then Some 0 else None)"
| "indexOf (c # cs) pat =
     (if startsWith (c # cs) pat then Some 0 else map_option Suc (indexOf cs pat))"

definition str_includes :: "string \<Rightarrow> string \<Rightarrow> bool" where
  "str_includes s pat = (indexOf s pat \<noteq> None)"

text \<open>\<open>str.replace(pat, replacement)\<close> for a string \<open>pat\<close>: the first occurrence only.\<close>

definition replace_string :: "string \<Rightarrow> string \<Rightarrow> string \<Rightarrow> string" where
  "replace_string s pat replacement =
     (case indexOf s pat of
        None \<Rightarrow> s
      | Some i \<Rightarrow>
          (let pre = take i s; post = drop (i + length pat) s
           in pre @ expand pat pre post [] replacement @ post))"

text \<open>
  \<open>str.replace(/ATTR="\/([^"]*)"/, replacement)\<close> for \<open>ATTR\<close> one of \<open>href\<close>, \<open>src\<close>.  The
  expression has no \<open>g\<close> flag: only the first match is replaced.  A match starts at an
  occurrence of \<open>ATTR="/\<close>, captures the characters up to the next double quote and ends
  with that quote; if no double quote follows the first occurrence, none follows a later
  one, and there is no match.
\<close>

definition replace_attr_regex :: "string \<Rightarrow> string \<Rightarrow> string \<Rightarrow> string" where
  "replace_attr_regex s attr replacement =
     (let prefix = attr @ ''=\"/''
      in (case indexOf s prefix of
            None \<Rightarrow> s
          | Some i \<Rightarrow>
              (let pre = take i s;
                   rest = drop (i + length prefix) s;
                   cap = takeWhile (\<lambda>c. c \<noteq> CHR 0x22) rest;
                   tail = dropWhile (\<lambda>c. c \<noteq> CHR 0x22) rest
               in (case tail of
                     [] \<Rightarrow> s
                   | q # post \<Rightarrow>
                       pre @ expand (prefix @ cap @ [q]) pre post [cap] replacement
                         @ post))))"

section \<open>The route handler (pages/api/proxy.js)\<close>

text \<open>
  What the HTTP client meets upstream: the final response (status, headers with
  lower-case names, body as text) or a failure without a response.  An error of the
  client has a \<open>code\<close>, the status of the response it carries (if any), and may carry
  the request.
\<close>

record axios_error =
  code :: "string option"
  response_status :: "nat option"
  has_request :: bool
  message :: string

datatype upstream =
    Responded nat "(string \<times> string) list" string
  | Failed axios_error

record axios_response =
  resp_status :: nat
  resp_headers :: "(string \<times> string) list"
  resp_data :: string

text \<open>
  The client called with \<open>validateStatus: status => status < 500\<close>: it resolves with
  the response when the status is accepted and rejects with an error that carries the
  response otherwise.  The code of that error is \<open>ERR_BAD_RESPONSE\<close> for a 5xx status.
\<close>

definition axios_settle :: "upstream \<Rightarrow> axios_error + axios_response" where
  "axios_settle u =
     (case u of
        Responded st hs data \<Rightarrow>
          if st < 500 then Inr \<lparr> resp_status = st, resp_headers = hs, resp_data = data \<rparr>
          else Inl \<lparr> code = (if st div 100 = 5 then Some ''ERR_BAD_RESPONSE'' else None),
                     response_status = Some st, has_request = True,
                     message = ''Request failed'' \<rparr>
      | Failed e \<Rightarrow> Inl e)"

text \<open>
  The environment of one call of the handler: the \<open>URL\<close> constructor, the reading of
  \<open>Date.now()\<close>, what a HEAD and a GET request to a URL meet, the configured
  \<open>RATE_LIMIT\<close> (the number that \<open>parseInt\<close> reads from the configuration, 100 by
  default) and whether \<open>NODE_ENV\<close> is \<open>development\<close>.
\<close>

record handler_env =
  url_of :: "string \<Rightarrow> url option"
  now :: int
  http_head :: "string \<Rightarrow> upstream"
  http_get :: "string \<Rightarrow> upstream"
  RATE_LIMIT :: nat
  development :: bool

datatype body =
    JsonError string "int option" "string option"
  | JsonSuccess
  | Content string

record response =
  status :: nat
  headers :: "(string \<times> string) list"
  body :: body

datatype fetch_call = PROBE string | FULL string

definition RATE_WINDOW :: int where
  "RATE_WINDOW = 60 * 1000"

definition json_error :: "nat \<Rightarrow> string \<Rightarrow> response" where
  "json_error st msg = \<lparr> status = st, headers = [], body = JsonError msg None None \<rparr>"

definition blockedHosts :: "string list" where
  "blockedHosts = [''localhost'', ''127.0.0.1'', ''0.0.0.0'', ''::1'']"

text \<open>\<open>/^(10\.|172\.(1[6-9]|2[0-9]|3[0-1])\.|192\.168\.)/\<close>\<close>

definition privateIPRegex :: "string \<Rightarrow> bool" where
  "privateIPRegex h =
     (startsWith h ''10.''
      \<or> (startsWith h ''172.'' \<and>
          (case drop 4 h of
             a # b # c # _ \<Rightarrow>
               c = CHR ''.'' \<and>
               ((a = CHR ''1'' \<and> b \<in> set ''6789'')
                \<or> (a = CHR ''2'' \<and> is_digit b)
                \<or> (a = CHR ''3'' \<and> b \<in> set ''01''))
           | _ \<Rightarrow> False))
      \<or> startsWith h ''192.168.'')"

text \<open>
  The branch for \<open>text/html\<close>: the two replacements of relative links, the base tag and
  the injection of the widget script.
\<close>

definition rewrite_inline :: "string \<Rightarrow> string \<Rightarrow> string \<Rightarrow> string \<Rightarrow> string \<Rightarrow> string" where
  "rewrite_inline baseUrl targetUrl proto hst html0 =
     (let html1 = replace_attr_regex html0 ''href'' (''href=\"'' @ baseUrl @ ''/$1\"'');
          html2 = replace_attr_regex html1 ''src'' (''src=\"'' @ baseUrl @ ''/$1\"'');
          html3 = (if str_includes html2 ''<head>''
                   then replace_string html2 ''<head>'' (''<head><base href=\"'' @ targetUrl @ ''\">'')
                   else html2);
          widget = ''<script src=\"'' @ proto @ ''://'' @ hst @ ''/widget.js\"></script>''
      in if str_includes html3 ''</head>'' then replace_string html3 ''</head>'' (widget @ ''</head>'')
         else if str_includes html3 ''</body>'' then replace_string html3 ''</body>'' (widget @ ''</body>'')
         else html3 @ widget)"

text \<open>
  \<open>res.setHeader(name, value)\<close> throws when the value holds a character that may not
  appear in a header (a control character other than the tab).
\<close>

definition valid_header_value :: "string \<Rightarrow> bool" where
  "valid_header_value v =
     list_all (\<lambda>c. (of_char c :: nat) = 9 \<or> (32 \<le> (of_char c :: nat) \<and> (of_char c :: nat) \<noteq> 127)) v"

text \<open>The \<open>catch\<close> block of the handler.\<close>

definition handle_error :: "handler_env \<Rightarrow> axios_error \<Rightarrow> response" where
  "handle_error env err =
     (if code err = Some ''ECONNABORTED'' \<or> code err = Some ''ETIMEDOUT''
      then json_error 408 ''Request timed out. The website may be slow or unavailable.''
      else if response_status err = Some 404 then json_error 404 ''Website not found''
      else if response_status err = Some 403
        then json_error 403 ''Access forbidden by the target website''
      else if (case response_status err of Some st \<Rightarrow> st \<ge> 500 | None \<Rightarrow> False)
        then json_error 502 ''Target website server error''
      else if has_request err
        then json_error 502 ''Unable to reach the website. Please check the URL.''
      else \<lparr> status = 500, headers = [],
             body = JsonError ''An unexpected error occurred while processing your request'' None
                      (if development env then Some (message err) else None) \<rparr>)"

text \<open>The part of the handler after the fetch has resolved.\<close>

definition send_content :: "handler_env \<Rightarrow> request \<Rightarrow> string \<Rightarrow> url \<Rightarrow> axios_response \<Rightarrow> response" where
  "send_content env req targetUrl parsedUrl resp =
     (let contentType = (case js_or (map_of (resp_headers resp) ''content-type'') (Some ''text/html'') of
                           Some ct \<Rightarrow> ct | None \<Rightarrow> ''text/html'');
          html = (if str_includes contentType ''text/html''
                  then rewrite_inline (origin parsedUrl) targetUrl
                         (case js_or (hdr_x_forwarded_proto req) (Some ''http'') of
                            Some p \<Rightarrow> p | None \<Rightarrow> ''http'')
                         (case js_or (hdr_host req) (Some ''localhost:3000'') of
                            Some h \<Rightarrow> h | None \<Rightarrow> ''localhost:3000'')
                         (resp_data resp)
                  else resp_data resp)
      in if valid_header_value contentType \<and> valid_header_value targetUrl
         then \<lparr> status = 200,
                headers = [(''Content-Type'', contentType),
                           (''X-Proxied-URL'', targetUrl),
                           (''Access-Control-Allow-Origin'', ''*''),
                           (''Access-Control-Allow-Methods'', ''GET, POST, PUT, DELETE, OPTIONS''),
                           (''Access-Control-Allow-Headers'', ''Content-Type, Authorization'')],
                body = Content html \<rparr>
         else handle_error env \<lparr> code = Some ''ERR_INVALID_CHAR'', response_status = None,
                                   has_request = False, message = ''Invalid character in header content'' \<rparr>)"

text \<open>
  The rate limiting of the handler (lines 46 to 55): the client key, and the record of the
  client after this request has been counted.
\<close>

definition clientIP :: "request \<Rightarrow> string" where
  "clientIP req =
     (case js_or (hdr_x_forwarded_for req) (js_or (remoteAddress req) (Some ''unknown'')) of
        Some ip \<Rightarrow> ip | None \<Rightarrow> ''unknown'')"

definition count_request :: "handler_env \<Rightarrow> string \<Rightarrow> requests \<Rightarrow> client" where
  "count_request env ip requestCounts =
     (let c0 = (case requestCounts ip of
                  Some c \<Rightarrow> c
                | None \<Rightarrow> \<lparr> count = 0, resetTime = now env + RATE_WINDOW \<rparr>);
          c1 = (if now env > resetTime c0
                then c0 \<lparr> count := 0, resetTime := now env + RATE_WINDOW \<rparr>
                else c0)
      in c1 \<lparr> count := count c1 + 1 \<rparr>)"

text \<open>
  \<open>handler(req, res)\<close>: the response, the map \<open>requestCounts\<close> after the call, and the
  requests made upstream, in order.
\<close>

definition handler ::
  "handler_env \<Rightarrow> request \<Rightarrow> requests \<Rightarrow> response \<times> requests \<times> fetch_call list" where
  "handler env req requestCounts =
     (if req_method req \<noteq> ''GET'' then (json_error 405 ''Method not allowed'', requestCounts, [])
      else
        (case query_url req of
           None \<Rightarrow> (json_error 400 ''URL parameter is required'', requestCounts, [])
         | Some targetUrl \<Rightarrow>
             if targetUrl = [] then (json_error 400 ''URL parameter is required'', requestCounts, [])
             else
               (case url_of env targetUrl of
                  None \<Rightarrow> (json_error 400 ''Invalid URL format'', requestCounts, [])
                | Some parsedUrl \<Rightarrow>
                    if hostname parsedUrl \<in> set blockedHosts
                    then (json_error 403 ''Access to local addresses is not allowed'', requestCounts, [])
                    else if privateIPRegex (hostname parsedUrl)
                    then (json_error 403 ''Access to private IP addresses is not allowed'',
                          requestCounts, [])
                    else
                      (let clientRequests = count_request env (clientIP req) requestCounts;
                           requestCounts' = requestCounts(clientIP req \<mapsto> clientRequests)
                       in if count clientRequests > RATE_LIMIT env
                          then (\<lparr> status = 429, headers = [],
                                  body = JsonError ''Too many requests. Please try again later.''
                                           (Some (ceil_div (resetTime clientRequests - now env) 1000))
                                           None \<rparr>,
                                requestCounts', [])
                          else if query_test req = Some ''true''
                          then
                            (case axios_settle (http_head env targetUrl) of
                               Inr r \<Rightarrow>
                                 (\<lparr> status = 200, headers = [], body = JsonSuccess \<rparr>,
                                  requestCounts', [PROBE targetUrl])
                             | Inl err \<Rightarrow>
                                 (\<lparr> status = 400, headers = [],
                                    body = JsonError ''Unable to reach the specified website'' None
                                             (Some (message err)) \<rparr>,
                                  requestCounts', [PROBE targetUrl]))
                          else
                            (case axios_settle (http_get env targetUrl) of
                               Inr r \<Rightarrow>
                                 (send_content env req targetUrl parsedUrl r,
                                  requestCounts', [FULL targetUrl])
                             | Inl err \<Rightarrow>
                                 (handle_error env err, requestCounts', [FULL targetUrl]))))))"

text \<open>
  The checks the handler makes on the target before it counts the request: the method,
  the presence of the parameter, the syntax of the URL, and the two host checks.
\<close>

definition target_allowed :: "handler_env \<Rightarrow> request \<Rightarrow> bool" where
  "target_allowed env req =
     (req_method req = ''GET'' \<and>
      (case query_url req of
         None \<Rightarrow> False
       | Some targetUrl \<Rightarrow>
           targetUrl \<noteq> [] \<and>
           (case url_of env targetUrl of
              None \<Rightarrow> False
            | Some parsedUrl \<Rightarrow>
                hostname parsedUrl \<notin> set blockedHosts \<and> \<not> privateIPRegex (hostname parsedUrl))))"

section \<open>Target Validator: validateUrl (utils/urlValidator.js)\<close>

record validation =
  isValid :: bool
  error :: "string option"

definition invalid :: "string \<Rightarrow> validation" where
  "invalid msg = \<lparr> isValid = False, error = Some msg \<rparr>"

text \<open>\<open>isPrivateIP(hostname)\<close>: the IPv4 prefixes, and the IPv6 patterns (with the flag \<open>i\<close>)
  on the host name without its brackets.\<close>

definition is_hex_lower :: "char \<Rightarrow> bool" where
  "is_hex_lower c = (is_digit c \<or> c \<in> set ''abcdef'')"

definition strip_brackets :: "string \<Rightarrow> string" where
  "strip_brackets h =
     (let h1 = (case h of c # cs \<Rightarrow> if c = CHR ''['' then cs else h | [] \<Rightarrow> h)
      in if h1 \<noteq> [] \<and> last h1 = CHR '']'' then butlast h1 else h1)"

definition isPrivateIP :: "string \<Rightarrow> bool" where
  "isPrivateIP h =
     (startsWith h ''10.''
      \<or> (startsWith h ''172.'' \<and>
          (case drop 4 h of
             a # b # c # _ \<Rightarrow>
               c = CHR ''.'' \<and>
               ((a = CHR ''1'' \<and> b \<in> set ''6789'')
                \<or> (a = CHR ''2'' \<and> is_digit b)
                \<or> (a = CHR ''3'' \<and> b \<in> set ''01''))
           | _ \<Rightarrow> False))
      \<or> startsWith h ''192.168.''
      \<or> startsWith h ''169.254.''
      \<or> (let c = toLowerCase (strip_brackets h)
          in startsWith c ''fc00:''
             \<or> (startsWith c ''fd'' \<and>
                 (case drop 2 c of
                    x # y # z # _ \<Rightarrow> is_hex_lower x \<and> is_hex_lower y \<and> z = CHR '':''
                  | _ \<Rightarrow> False))
             \<or> startsWith c ''fe80:''
             \<or> c = ''::1''
             \<or> startsWith c ''::''))"

text \<open>\<open>containsSuspiciousPatterns(url)\<close>: each pattern is searched without regard to case.\<close>

definition suspiciousPatterns :: "string list" where
  "suspiciousPatterns =
     [''javascript:'', ''data:text/html'', ''vbscript:'', ''onmouseover='', ''onclick='',
      ''<script'', ''base64,'']"

definition containsSuspiciousPatterns :: "string \<Rightarrow> bool" where
  "containsSuspiciousPatterns u = list_ex (\<lambda>p. str_includes (toLowerCase u) p) suspiciousPatterns"

text \<open>\<open>parseInt(port)\<close> on the decimal digits of a port.\<close>

definition parseInt :: "string \<Rightarrow> nat" where
  "parseInt s = foldl (\<lambda>n c. 10 * n + digit_val c) 0 (takeWhile is_digit s)"

definition blockedPorts :: "nat list" where
  "blockedPorts = [22, 23, 25, 110, 135, 139, 445, 3389]"

definition localPatterns :: "string list" where
  "localPatterns = [''localhost'', ''127.0.0.1'', ''0.0.0.0'', ''::1'', ''[::1]'']"

text \<open>
  \<open>validateUrl(url)\<close>.  \<open>validator.isURL\<close> (with the options of the code) and the \<open>URL\<close>
  constructor are the parameters \<open>isURL\<close> and \<open>parse\<close>.
\<close>

definition validateUrl :: "(string \<Rightarrow> bool) \<Rightarrow> (string \<Rightarrow> url option) \<Rightarrow> string \<Rightarrow> validation" where
  "validateUrl isURL parse url0 =
     (if url0 = [] then invalid ''Please enter a URL''
      else
        let u = trim url0
        in if u = [] then invalid ''Please enter a URL''
           else if length u > 2048 then invalid ''URL is too long (maximum 2048 characters)''
           else if \<not> startsWith u ''http://'' \<and> \<not> startsWith u ''https://''
             then invalid ''URL must start with http:// or https://''
           else if \<not> isURL u then invalid ''Please enter a valid URL format''
           else
             (case parse u of
                None \<Rightarrow> invalid ''Invalid URL format''
              | Some parsedUrl \<Rightarrow>
                  let h = toLowerCase (hostname parsedUrl)
                  in if h \<in> set localPatterns
                       then invalid ''Local addresses are not allowed for security reasons''
                     else if isPrivateIP h
                       then invalid ''Private IP addresses are not allowed for security reasons''
                     else if port parsedUrl \<noteq> [] \<and>
                             (parseInt (port parsedUrl) < 1 \<or> parseInt (port parsedUrl) > 65535)
                       then invalid ''Invalid port number''
                     else if port parsedUrl \<noteq> [] \<and> parseInt (port parsedUrl) \<in> set blockedPorts
                       then invalid ''This port is not allowed for security reasons''
                     else if containsSuspiciousPatterns u
                       then invalid ''URL contains suspicious patterns''
                     else \<lparr> isValid = True, error = None \<rparr>))"

section \<open>The server-side validator: ProxyHandler.validateUrl\<close>

text \<open>
  \<open>ProxyHandler.validateUrl(url)\<close> (\<open>{ valid, error }\<close>), with the \<open>URL\<close> constructor as the
  parameter \<open>parse\<close> and the list \<open>blockedDomains\<close> read from the configuration.  The
  patterns of the private ranges have no flag and are tested on the lower-cased host name.
\<close>

record validity =
  valid :: bool
  valid_error :: "string option"

definition localhostPatterns :: "string list" where
  "localhostPatterns = [''localhost'', ''127.0.0.1'', ''0.0.0.0'', ''::1'']"

definition privateIpRanges :: "string \<Rightarrow> bool" where
  "privateIpRanges h =
     (startsWith h ''10.''
      \<or> (startsWith h ''172.'' \<and>
          (case drop 4 h of
             a # b # c # _ \<Rightarrow>
               c = CHR ''.'' \<and>
               ((a = CHR ''1'' \<and> b \<in> set ''6789'')
                \<or> (a = CHR ''2'' \<and> is_digit b)
                \<or> (a = CHR ''3'' \<and> b \<in> set ''01''))
           | _ \<Rightarrow> False))
      \<or> startsWith h ''192.168.''
      \<or> startsWith h ''169.254.''
      \<or> startsWith h ''fc00:''
      \<or> startsWith h ''fe80:'')"

definition ProxyHandler_validateUrl ::
  "(string \<Rightarrow> url option) \<Rightarrow> string list \<Rightarrow> string \<Rightarrow> validity" where
  "ProxyHandler_validateUrl parse blockedDomains u =
     (case parse u of
        None \<Rightarrow> \<lparr> valid = False, valid_error = Some ''Invalid URL format'' \<rparr>
      | Some parsedUrl \<Rightarrow>
          if protocol parsedUrl \<notin> set [''http:'', ''https:'']
          then \<lparr> valid = False,
                 valid_error = Some ''Only HTTP and HTTPS protocols are supported'' \<rparr>
          else
            let h = toLowerCase (hostname parsedUrl)
            in if h \<in> set localhostPatterns
               then \<lparr> valid = False,
                      valid_error = Some ''Access to local addresses is not allowed'' \<rparr>
               else if privateIpRanges h
               then \<lparr> valid = False,
                      valid_error = Some ''Access to private IP addresses is not allowed'' \<rparr>
               else if list_ex (\<lambda>dom. str_includes h dom) blockedDomains
               then \<lparr> valid = False, valid_error = Some ''This domain has been blocked'' \<rparr>
               else \<lparr> valid = True, valid_error = None \<rparr>)"

section \<open>Example requests and environments of the handler\<close>

text \<open>
  The \<open>URL\<close> constructor on the targets of the examples: \<open>javascript:alert(1)\<close> parses
  (scheme \<open>javascript\<close>, no host, opaque path), as do the three \<open>http\<close> URLs.
\<close>

definition example_url_of :: "string \<Rightarrow> url option" where
  "example_url_of s =
     (if s = ''javascript:alert(1)''
        then Some \<lparr> protocol = ''javascript:'', host = [], hostname = [], port = [],
                    pathname = ''alert(1)'', origin = ''null'' \<rparr>
      else if s = ''http://localhost/''
        then Some \<lparr> protocol = ''http:'', host = ''localhost'', hostname = ''localhost'', port = [],
                    pathname = ''/'', origin = ''http://localhost'' \<rparr>
      else if s = ''https://example.com/missing''
        then Some \<lparr> protocol = ''https:'', host = ''example.com'', hostname = ''example.com'',
                    port = [], pathname = ''/missing'', origin = ''https://example.com'' \<rparr>
      else if s = ''https://example.com/''
        then Some \<lparr> protocol = ''https:'', host = ''example.com'', hostname = ''example.com'',
                    port = [], pathname = ''/'', origin = ''https://example.com'' \<rparr>
      else None)"

text \<open>
  Upstream in the examples: \<open>/missing\<close> answers 404 with a page, \<open>/\<close> answers 200 with
  two relative links, and a URL that is not \<open>http(s)\<close> is refused by the client without a
  response.
\<close>

definition example_upstream :: "string \<Rightarrow> upstream" where
  "example_upstream s =
     (if s = ''https://example.com/missing''
        then Responded 404 [(''content-type'', ''text/html'')] ''<h1>Not Found</h1>''
      else if s = ''https://example.com/''
        then Responded 200 [(''content-type'', ''text/html'')]
               ''<a href=\"/a\">A</a><a href=\"/b\">B</a>''
      else Failed \<lparr> code = Some ''ERR_BAD_REQUEST'', response_status = None, has_request = False,
                     message = ''Unsupported protocol'' \<rparr>)"

definition example_handler_env :: handler_env where
  "example_handler_env =
     \<lparr> url_of = example_url_of, now = 1000, http_head = example_upstream,
       http_get = example_upstream, RATE_LIMIT = 100, development = False \<rparr>"

definition get_request :: "string \<Rightarrow> request" where
  "get_request target = req0 \<lparr> query_url := Some target \<rparr>"

text \<open>The counter of client \<open>203.0.113.7\<close> at the limit, inside its window.\<close>

definition exhausted :: requests where
  "exhausted = [''203.0.113.7'' \<mapsto> \<lparr> count = 100, resetTime = 50000 \<rparr>]"

section \<open>Fixed-window counting\<close>


lemma ceil_div_pos: "0 < x \<Longrightarrow> 0 < ceil_div x 1000"
  unfolding ceil_div_def by (simp add: pos_imp_zdiv_neg_iff)








section \<open>Header Sanitizer: what is forwarded\<close>

text \<open>
  Supporting facts about \<open>processResponseHeaders\<close>: whenever it returns, no header of the
  deny-list and no \<open>set-cookie\<close> is in the result, every header of the preserve-list is
  there with its value, the five fixed headers are there, and a forwarded header that is
  not one of the five is on the preserve-list, is \<open>location\<close>, or is named
  \<open>constructor\<close>.  It returns for every header object without a key \<open>__proto__\<close>.
\<close>

lemma names_update: "header_names (AList.update k v h) = insert k (header_names h)"
  by (simp add: header_names_def dom_update)

lemma processHeader_names:
  assumes "processHeader enc (k, v) acc = Inr acc'"
  shows "header_names acc' = header_names acc \<or>
         (header_names acc' = insert k (header_names acc) \<and>
          toLowerCase k \<notin> set headersToRemove \<and>
          (toLowerCase k \<in> set headersToPreserve \<or> toLowerCase k = ''location''
           \<or> toLowerCase k = ''constructor''))"
  using assms
  by (auto simp: processHeader_def Let_def headersToModify_def call_modifier_def
      processCookies_def names_update split: if_splits option.splits sum.splits modifier.splits)

lemma forEach_names:
  "forEach_header enc hs acc = Inr out \<Longrightarrow> k \<in> header_names out \<Longrightarrow>
   k \<in> header_names acc \<or>
   (k \<in> fst ` set hs \<and> toLowerCase k \<notin> set headersToRemove \<and>
    (toLowerCase k \<in> set headersToPreserve \<or> toLowerCase k = ''location''
     \<or> toLowerCase k = ''constructor''))"
proof (induction hs arbitrary: acc)
  case Nil
  then show ?case by simp
next
  case (Cons kv hs)
  obtain k' v' where kv: "kv = (k', v')" by (cases kv)
  from Cons.prems(1) obtain acc' where step: "processHeader enc (k', v') acc = Inr acc'"
    and rest: "forEach_header enc hs acc' = Inr out"
    by (auto simp: kv split: sum.splits)
  from Cons.IH [OF rest Cons.prems(2)] processHeader_names [OF step]
  show ?case by (auto simp: kv)
qed

lemma names_addCustomHeaders:
  "header_names (addCustomHeaders h) = header_names h \<union> fst ` set customHeaders"
  by (auto simp: addCustomHeaders_def names_update customHeaders_def)

lemma custom_lower:
  "k \<in> fst ` set customHeaders \<Longrightarrow>
   toLowerCase k \<notin> set headersToRemove \<and> toLowerCase k \<notin> set headersToPreserve \<and>
   toLowerCase k \<noteq> ''set-cookie''"
  by (auto simp: customHeaders_def toLowerCase_def toLowerCase_char_def headersToRemove_def
      headersToPreserve_def)

lemma lists_disjoint:
  "''set-cookie'' \<notin> set headersToPreserve" "''location'' \<notin> set headersToPreserve"
  "''constructor'' \<notin> set headersToPreserve" "''__proto__'' \<notin> set headersToPreserve"
  "''set-cookie'' \<notin> set headersToRemove" "''location'' \<notin> set headersToRemove"
  "''constructor'' \<notin> set headersToRemove" "''__proto__'' \<notin> set headersToRemove"
  by (simp_all add: headersToPreserve_def headersToRemove_def)

lemma deny_list_never_forwarded:
  assumes "processResponseHeaders enc hs = Inr out" "k \<in> header_names out"
  shows "toLowerCase k \<notin> set headersToRemove \<and> toLowerCase k \<noteq> ''set-cookie''"
proof -
  from assms(1) obtain ph where ph: "forEach_header enc hs [] = Inr ph"
    and out: "out = addCustomHeaders ph"
    by (auto simp: processResponseHeaders_def split: sum.splits)
  from assms(2) have "k \<in> header_names ph \<or> k \<in> fst ` set customHeaders"
    by (simp add: out names_addCustomHeaders)
  then show ?thesis
  proof
    assume "k \<in> header_names ph"
    from forEach_names [OF ph this] show ?thesis
      using lists_disjoint by (auto simp: header_names_def)
  next
    assume "k \<in> fst ` set customHeaders"
    then show ?thesis using custom_lower by blast
  qed
qed

lemma unlisted_dropped:
  assumes "processResponseHeaders enc hs = Inr out" "k \<in> header_names out"
  shows "k \<in> fst ` set customHeaders \<or>
         (k \<in> fst ` set hs \<and>
          (toLowerCase k \<in> set headersToPreserve \<or> toLowerCase k = ''location''
           \<or> toLowerCase k = ''constructor''))"
proof -
  from assms(1) obtain ph where ph: "forEach_header enc hs [] = Inr ph"
    and out: "out = addCustomHeaders ph"
    by (auto simp: processResponseHeaders_def split: sum.splits)
  from assms(2) have "k \<in> header_names ph \<or> k \<in> fst ` set customHeaders"
    by (simp add: out names_addCustomHeaders)
  then show ?thesis
    using forEach_names [OF ph, of k] by (auto simp: header_names_def)
qed

lemma custom_added:
  assumes "processResponseHeaders enc hs = Inr out" "(k, v) \<in> set customHeaders"
  shows "map_of out k = Some v"
proof -
  from assms(1) obtain ph where out: "out = addCustomHeaders ph"
    by (auto simp: processResponseHeaders_def split: sum.splits)
  from assms(2) show ?thesis
    by (auto simp: out addCustomHeaders_def customHeaders_def update_conv')
qed

lemma processHeader_keeps:
  assumes "processHeader enc (k', v') acc = Inr acc'" "k' \<noteq> k"
  shows "map_of acc' k = map_of acc k"
  using assms
  by (auto simp: processHeader_def Let_def update_conv' split: if_splits option.splits sum.splits)

lemma processHeader_preserves:
  assumes "toLowerCase k \<in> set headersToPreserve"
  shows "processHeader enc (k, v) acc = Inr (AList.update k v acc) \<or>
         (toLowerCase k \<in> set headersToRemove \<and> processHeader enc (k, v) acc = Inr acc)"
  using assms lists_disjoint
  by (auto simp: processHeader_def Let_def headersToModify_def)

lemma preserve_remove_disjoint:
  "x \<in> set headersToPreserve \<Longrightarrow> x \<notin> set headersToRemove"
  by (auto simp: headersToPreserve_def headersToRemove_def)

lemma forEach_keeps:
  "forEach_header enc hs acc = Inr out \<Longrightarrow> k \<notin> fst ` set hs \<Longrightarrow> map_of out k = map_of acc k"
proof (induction hs arbitrary: acc)
  case Nil
  then show ?case by simp
next
  case (Cons kv hs)
  obtain k' v' where kv: "kv = (k', v')" by (cases kv)
  from Cons.prems(1) obtain acc' where step: "processHeader enc (k', v') acc = Inr acc'"
    and rest: "forEach_header enc hs acc' = Inr out"
    by (auto simp: kv split: sum.splits)
  from Cons.prems(2) have "k' \<noteq> k" "k \<notin> fst ` set hs" by (auto simp: kv)
  with Cons.IH [OF rest] processHeader_keeps [OF step] show ?case by simp
qed

lemma forEach_preserves:
  "forEach_header enc hs acc = Inr out \<Longrightarrow> distinct (map fst hs) \<Longrightarrow> (k, v) \<in> set hs \<Longrightarrow>
   toLowerCase k \<in> set headersToPreserve \<Longrightarrow> map_of out k = Some v"
proof (induction hs arbitrary: acc)
  case Nil
  then show ?case by simp
next
  case (Cons kv hs)
  obtain k' v' where kv: "kv = (k', v')" by (cases kv)
  from Cons.prems(1) obtain acc' where step: "processHeader enc (k', v') acc = Inr acc'"
    and rest: "forEach_header enc hs acc' = Inr out"
    by (auto simp: kv split: sum.splits)
  show ?case
  proof (cases "(k, v) = (k', v')")
    case True
    with Cons.prems(2) have notin: "k \<notin> fst ` set hs" by (auto simp: kv)
    from True step processHeader_preserves [OF Cons.prems(4), of enc v acc]
      preserve_remove_disjoint [OF Cons.prems(4)]
    have "acc' = AList.update k v acc" by auto
    with forEach_keeps [OF rest notin] show ?thesis by (simp add: update_conv')
  next
    case False
    with Cons.prems(3) have "(k, v) \<in> set hs" by (auto simp: kv)
    with Cons.IH [OF rest _ this Cons.prems(4)] Cons.prems(2) show ?thesis by simp
  qed
qed

lemma preserve_list_forwarded:
  assumes "processResponseHeaders enc hs = Inr out" "distinct (map fst hs)" "(k, v) \<in> set hs"
    "toLowerCase k \<in> set headersToPreserve"
  shows "map_of out k = Some v"
proof -
  from assms(1) obtain ph where ph: "forEach_header enc hs [] = Inr ph"
    and out: "out = addCustomHeaders ph"
    by (auto simp: processResponseHeaders_def split: sum.splits)
  have "k \<notin> fst ` set customHeaders" using custom_lower assms(4) by blast
  then have "map_of out k = map_of ph k"
    by (auto simp: out addCustomHeaders_def customHeaders_def update_conv')
  with forEach_preserves [OF ph assms(2,3,4)] show ?thesis by simp
qed

lemma processHeader_total:
  "toLowerCase k \<noteq> ''__proto__'' \<Longrightarrow> \<exists>acc'. processHeader enc (k, v) acc = Inr acc'"
  by (simp add: processHeader_def Let_def headersToModify_def call_modifier_def processCookies_def)

lemma forEach_total:
  "\<forall>k \<in> fst ` set hs. toLowerCase k \<noteq> ''__proto__'' \<Longrightarrow> \<exists>out. forEach_header enc hs acc = Inr out"
proof (induction hs arbitrary: acc)
  case Nil
  then show ?case by simp
next
  case (Cons kv hs)
  obtain k' v' where kv: "kv = (k', v')" by (cases kv)
  from Cons.prems have "toLowerCase k' \<noteq> ''__proto__''" by (simp add: kv)
  then obtain acc' where step: "processHeader enc (k', v') acc = Inr acc'"
    using processHeader_total by blast
  with Cons show ?case by (simp add: kv)
qed

text \<open>
  Claim C3 (the sanitized output holds no header outside the preserve and transform lists,
  besides the fixed ones).  The code's own comment says "Other headers are not included by
  default", but an upstream header named \<open>constructor\<close> is forwarded: the lookup
  \<open>this.headersToModify[lowerKey]\<close> finds the inherited \<open>Object\<close> function, which is
  truthy and returns its argument boxed, so the header is stored in the result although
  its name is on none of the three lists.
\<close>

theorem sanitizer_forwards_constructor:
  "processResponseHeaders enc [(''constructor'', JStr ''x'')]
     = Inr ((''constructor'', JBoxed ''x'') # customHeaders)
   \<and> toLowerCase ''constructor'' \<notin> set headersToPreserve \<union> set headersToRemove
         \<union> {''location'', ''set-cookie''}"
  by (simp add: processResponseHeaders_def processHeader_def toLowerCase_def
      toLowerCase_char_def headersToRemove_def headersToPreserve_def headersToModify_def
      call_modifier_def addCustomHeaders_def customHeaders_def)

section \<open>The attribute loop of fixUrls\<close>

lemma map_attribs_comp:
  "map_attribs f (map_attribs g n) = map_attribs (\<lambda>t as. f t (g t as)) n"
  by (induction n) auto

lemma fold_passes_doc:
  "fold (\<lambda>tag d2. map (map_attribs (F tag)) d2) tags d
     = map (map_attribs (\<lambda>t as. fold (\<lambda>tag as'. F tag t as') tags as)) d"
proof (induction tags arbitrary: d)
  case Nil
  have "map_attribs (\<lambda>t as. as) n = n" for n by (induction n) (auto simp: map_idI)
  then show ?case by (simp add: map_idI)
next
  case (Cons tag tags)
  show ?case by (simp add: Cons.IH map_attribs_comp)
qed

lemma fixUrlAttributes_map:
  "fixUrlAttributes env baseUrl parsedUrl d = map (map_attribs (fixAll env baseUrl parsedUrl)) d"
proof -
  have nested: "fold (\<lambda>(attr, tags) d1.
             fold (\<lambda>tag d2. map (map_attribs (fixAttr env baseUrl parsedUrl attr tag)) d2) tags d1) tbl d
     = fold (\<lambda>(attr, tag) d2. map (map_attribs (fixAttr env baseUrl parsedUrl attr tag)) d2)
         (concat (map (\<lambda>(attr, tags). map (Pair attr) tags) tbl)) d" for tbl d
    by (induction tbl arbitrary: d) (auto simp: fold_map comp_def)
  have "fold (\<lambda>(attr, tag) d2. map (map_attribs (fixAttr env baseUrl parsedUrl attr tag)) d2) ps d
     = map (map_attribs (\<lambda>t as. fold (\<lambda>(attr, tag) as'. fixAttr env baseUrl parsedUrl attr tag t as') ps as)) d"
    for ps
    using fold_passes_doc [of "\<lambda>p. fixAttr env baseUrl parsedUrl (fst p) (snd p)" ps d]
    by (simp add: case_prod_unfold)
  moreover have "fixAll env baseUrl parsedUrl
      = (\<lambda>t. fold (\<lambda>(attr, tag). fixAttr env baseUrl parsedUrl attr tag t) url_passes)"
    by (intro ext) (simp add: fixAll_def)
  ultimately show ?thesis
    by (simp add: fixUrlAttributes_def nested url_passes_def)
qed

lemma fixAttr_lookup:
  "map_of (fixAttr env b u attr tag t as) a =
     (case map_of as a of
        None \<Rightarrow> None
      | Some v \<Rightarrow> Some (if (a, t) = (attr, tag) \<and> v \<noteq> [] \<and> \<not> isDataUri v \<and> \<not> isAbsoluteUrl v
                        then rewritten env b u a v else v))"
  by (auto simp: fixAttr_def rewritten_def update_conv' split: option.splits)

lemma fold_fixAttr_lookup:
  "distinct ps \<Longrightarrow>
   map_of (fold (\<lambda>(attr, tag) as'. fixAttr env b u attr tag t as') ps as) a =
     (case map_of as a of
        None \<Rightarrow> None
      | Some v \<Rightarrow> Some (if (a, t) \<in> set ps \<and> v \<noteq> [] \<and> \<not> isDataUri v \<and> \<not> isAbsoluteUrl v
                        then rewritten env b u a v else v))"
proof (induction ps arbitrary: as)
  case Nil
  then show ?case by (simp split: option.splits)
next
  case (Cons p ps)
  obtain attr tag where p: "p = (attr, tag)" by (cases p)
  from Cons.prems have d: "distinct ps" and notin: "(attr, tag) \<notin> set ps" by (auto simp: p)
  let ?F = "\<lambda>(attr, tag) as'. fixAttr env b u attr tag t as'"
  let ?as1 = "fixAttr env b u attr tag t as"
  have "map_of (fold ?F (p # ps) as) a = map_of (fold ?F ps ?as1) a"
    by (simp add: p)
  also have "\<dots> = (case map_of ?as1 a of
        None \<Rightarrow> None
      | Some v \<Rightarrow> Some (if (a, t) \<in> set ps \<and> v \<noteq> [] \<and> \<not> isDataUri v \<and> \<not> isAbsoluteUrl v
                        then rewritten env b u a v else v))"
    by (rule Cons.IH [OF d])
  also have "\<dots> = (case map_of as a of
        None \<Rightarrow> None
      | Some v \<Rightarrow> Some (if (a, t) \<in> set (p # ps) \<and> v \<noteq> [] \<and> \<not> isDataUri v \<and> \<not> isAbsoluteUrl v
                        then rewritten env b u a v else v))"
    using notin by (auto simp: fixAttr_lookup p split: option.splits)
  finally show ?case .
qed

lemma distinct_url_passes: "distinct url_passes"
  by (simp add: url_passes_def urlAttributes_def)

lemma fixAll_lookup:
  "map_of (fixAll env b u t as) a =
     (case map_of as a of
        None \<Rightarrow> None
      | Some v \<Rightarrow> Some (if (a, t) \<in> set url_passes \<and> v \<noteq> [] \<and> \<not> isDataUri v \<and> \<not> isAbsoluteUrl v
                        then rewritten env b u a v else v))"
  unfolding fixAll_def by (rule fold_fixAttr_lookup [OF distinct_url_passes])

lemma node_at_map_attribs:
  "node_at (map (map_attribs f) d) p = map_option (map_attribs f) (node_at d p)"
proof (induction d p rule: node_at.induct)
  case (1 d)
  then show ?case by simp
next
  case (2 d i)
  then show ?case by simp
next
  case (3 d i j p)
  then show ?case by (cases "d ! i") auto
qed

lemma tag_at_map_attribs: "tag_at (map (map_attribs f) d) p = tag_at d p"
  by (cases "node_at d p"; simp add: tag_at_def node_at_map_attribs split: node.splits)

lemma attr_at_fixUrlAttributes:
  "attr_at (fixUrlAttributes env b u d) p a =
     (case tag_at d p of
        None \<Rightarrow> None
      | Some t \<Rightarrow>
          (case attr_at d p a of
             None \<Rightarrow> None
           | Some v \<Rightarrow> Some (if (a, t) \<in> set url_passes \<and> v \<noteq> [] \<and> \<not> isDataUri v
                                 \<and> \<not> isAbsoluteUrl v
                             then rewritten env b u a v else v)))"
proof (cases "node_at d p")
  case None
  then show ?thesis
    by (simp add: attr_at_def tag_at_def fixUrlAttributes_map node_at_map_attribs)
next
  case (Some n)
  then show ?thesis
    by (cases n)
      (simp_all add: attr_at_def tag_at_def fixUrlAttributes_map node_at_map_attribs fixAll_lookup)
qed

lemma tag_at_fixUrlAttributes: "tag_at (fixUrlAttributes env b u d) p = tag_at d p"
  by (simp add: fixUrlAttributes_map tag_at_map_attribs)

lemma attr_at_tag: "attr_at d p a = Some v \<Longrightarrow> \<exists>t. tag_at d p = Some t"
  by (auto simp: attr_at_def tag_at_def split: option.splits node.splits)

lemma attribute_loop_rewrites_all:
  assumes "tag_at d p = Some t" "attr_at d p a = Some v" "(a, t) \<in> set url_passes"
    "v \<noteq> []" "\<not> isDataUri v" "\<not> isAbsoluteUrl v"
  shows "attr_at (fixUrlAttributes env b u d) p a = Some (rewritten env b u a v)"
  using assms by (simp add: attr_at_fixUrlAttributes)

lemma attribute_loop_keeps_absolute:
  assumes "attr_at d p a = Some v" "isAbsoluteUrl v"
  shows "attr_at (fixUrlAttributes env b u d) p a = Some v"
  using assms attr_at_tag [OF assms(1)] by (auto simp: attr_at_fixUrlAttributes)

lemma modifyForm_lookup:
  "a \<noteq> ''data-proxied'' \<Longrightarrow> map_of as a = Some v \<Longrightarrow> isAbsoluteUrl v \<Longrightarrow>
   map_of (modifyForm env u t as) a = Some v"
  by (auto simp: modifyForm_def Let_def update_conv' split: option.splits)

lemma attr_at_map_attribs:
  "attr_at (map (map_attribs f) d) p a =
     (case node_at d p of Some (Element t as cs) \<Rightarrow> map_of (f t as) a | _ \<Rightarrow> None)"
  by (cases "node_at d p"; simp add: attr_at_def node_at_map_attribs split: node.splits)

lemma modifyForms_keeps_absolute:
  assumes "modifyForms env targetUrl d = Inr d'" "attr_at d p a = Some v" "isAbsoluteUrl v"
    "a \<noteq> ''data-proxied''"
  shows "attr_at d' p a = Some v"
proof (cases "parseURL env targetUrl")
  case None
  with assms(1) have d': "d' = map (map_attribs (\<lambda>t as. if t = ''form''
                                              then AList.update ''data-proxied'' ''true'' as
                                              else as)) d"
    by (auto simp: modifyForms_def split: if_splits)
  from assms(2,4) show ?thesis
    unfolding d' attr_at_map_attribs
    by (auto simp: attr_at_def update_conv' split: option.splits node.splits)
next
  case (Some u)
  with assms(1) have d': "d' = map (map_attribs (modifyForm env u)) d"
    by (auto simp: modifyForms_def)
  from assms(2,3,4) show ?thesis
    unfolding d' attr_at_map_attribs
    by (auto simp: attr_at_def modifyForm_lookup split: option.splits node.splits)
qed

lemma protocol_relative_absolute: "startsWith v ''//'' \<Longrightarrow> isAbsoluteUrl v"
  by (simp add: isAbsoluteUrl_def)

text \<open>
  Claim C10.  A URL attribute value that begins with \<open>//\<close> is classified as absolute by
  \<open>isAbsoluteUrl\<close>, and the rewriter leaves it as it is: at every position of every
  document, the attribute loop of \<open>fixUrls\<close> keeps the element's tag and the value of the
  attribute, and so does \<open>modifyForms\<close> (for every attribute but the marker
  \<open>data-proxied\<close>, which \<open>modifyForms\<close> sets itself).  The value is not resolved, gets
  no scheme and is not routed through the proxy.
\<close>

theorem protocol_relative_unchanged:
  assumes "startsWith v ''//''" and "attr_at d p a = Some v"
  shows "isAbsoluteUrl v
         \<and> tag_at (fixUrlAttributes env baseUrl parsedUrl d) p = tag_at d p
         \<and> attr_at (fixUrlAttributes env baseUrl parsedUrl d) p a = Some v
         \<and> (a \<noteq> ''data-proxied'' \<longrightarrow> modifyForms env targetUrl d = Inr d' \<longrightarrow> attr_at d' p a = Some v)"
  using assms protocol_relative_absolute [OF assms(1)]
    attribute_loop_keeps_absolute [of d p a v env baseUrl parsedUrl]
    modifyForms_keeps_absolute [of env targetUrl d d' p a v]
  by (simp add: tag_at_fixUrlAttributes)

theorem protocol_relative_unchanged_witness:
  "startsWith ''//cdn.example.net/lib.js'' ''//''
   \<and> attr_at links_doc [0, 0, 1] ''href'' = Some ''//cdn.example.net/lib.js''
   \<and> attr_at (fixUrlAttributes example_env ''https://example.com'' example_url links_doc) [0, 0, 1] ''href''
       = Some ''//cdn.example.net/lib.js''
   \<and> attr_at (the_doc (modifyForms example_env example_target links_doc)) [0, 0, 1] ''href''
       = Some ''//cdn.example.net/lib.js''"
proof -
  have s: "startsWith ''//cdn.example.net/lib.js'' ''//''" by (simp add: startsWith_def)
  have a: "attr_at links_doc [0, 0, 1] ''href'' = Some ''//cdn.example.net/lib.js''"
    by (simp add: attr_at_def links_doc_def)
  have m: "modifyForms example_env example_target links_doc
            = Inr (the_doc (modifyForms example_env example_target links_doc))"
    by (simp add: modifyForms_def example_env_def the_doc_def)
  from protocol_relative_unchanged [OF s a, of example_env "''https://example.com''" example_url
      example_target "the_doc (modifyForms example_env example_target links_doc)"] s a m
  show ?thesis by simp
qed

section \<open>Relative-URL resolution\<close>

lemma resolveUrl_absolute_path:
  "startsWith rel ''/'' \<Longrightarrow> \<not> startsWith rel ''//'' \<Longrightarrow>
   resolveUrl href_of rel baseUrl parsedUrl = baseUrl @ rel"
  by (simp add: resolveUrl_def)

lemma resolveUrl_relative_path:
  "\<not> startsWith rel ''/'' \<Longrightarrow> \<not> endsWith (pathname parsedUrl) ''/'' \<Longrightarrow>
   resolveUrl href_of rel baseUrl parsedUrl =
     (case href_of rel (baseUrl @ substring0 (pathname parsedUrl)
                          (lastIndexOf (pathname parsedUrl) (CHR ''/'') + 1)) of
        Some h \<Rightarrow> h | None \<Rightarrow> rel)"
proof -
  assume a: "\<not> startsWith rel ''/''" and b: "\<not> endsWith (pathname parsedUrl) ''/''"
  from a have "\<not> startsWith rel ''//''"
    by (cases rel) (auto simp: startsWith_def)
  with a b show ?thesis by (simp add: resolveUrl_def)
qed

text \<open>
  Claim C8.  An absolute-path reference \<open>/a/b\<close> resolved against the origin
  \<open>https://example.com\<close> gives \<open>https://example.com/a/b\<close> whatever the parsed URL is, so
  also for the base path \<open>/x/\<close>: the current path is ignored.  For a document at path
  \<open>/x/y\<close>, the relative reference \<open>c.css\<close> is handed to the \<open>URL\<close> constructor with the base
  \<open>https://example.com/x/\<close>, the directory of the document; with the constructor's answer
  for that base, \<open>https://example.com/x/c.css\<close>, this is the result.
\<close>

theorem resolveUrl_round_trip:
  "resolveUrl href_of ''/a/b'' ''https://example.com'' (parsedUrl \<lparr> pathname := ''/x/'' \<rparr>)
     = ''https://example.com/a/b''
   \<and> resolveUrl href_of ''/a/b'' ''https://example.com'' parsedUrl = ''https://example.com/a/b''
   \<and> (pathname parsedUrl = ''/x/y'' \<longrightarrow>
        resolveUrl href_of ''c.css'' ''https://example.com'' parsedUrl
          = (case href_of ''c.css'' ''https://example.com/x/'' of
               Some h \<Rightarrow> h | None \<Rightarrow> ''c.css''))
   \<and> (pathname parsedUrl = ''/x/y'' \<longrightarrow>
        href_of ''c.css'' ''https://example.com/x/'' = Some ''https://example.com/x/c.css'' \<longrightarrow>
        resolveUrl href_of ''c.css'' ''https://example.com'' parsedUrl
          = ''https://example.com/x/c.css'')"
  by (simp add: resolveUrl_def startsWith_def endsWith_def lastIndexOf_def substring0_def)

theorem resolveUrl_round_trip_witness:
  "pathname example_url = ''/x/y''
   \<and> href_concat ''c.css'' ''https://example.com/x/'' = Some ''https://example.com/x/c.css''
   \<and> resolveUrl href_concat ''c.css'' ''https://example.com'' example_url
        = ''https://example.com/x/c.css''
   \<and> resolveUrl href_concat ''/a/b'' ''https://example.com'' (example_url \<lparr> pathname := ''/x/'' \<rparr>)
        = ''https://example.com/a/b''"
  using resolveUrl_round_trip [of href_concat example_url]
  by (simp add: example_url_def href_concat_def)

section \<open>Graceful degradation of the HTML rewrite\<close>

lemma modifyHtml_try_fails_iff:
  "modifyHtml_try env html targetUrl = Inl e \<longleftrightarrow>
     (load env html = None \<and> e = ParseError) \<or>
     (load env html \<noteq> None \<and> parseURL env targetUrl = None \<and> e = InvalidURL)"
  by (auto simp: modifyHtml_try_def modifyDocument_def modifyForms_def Let_def
      split: option.splits sum.splits)

text \<open>
  Claim C9.  Whenever the body of the rewrite raises an exception (\<open>modifyHtml_try\<close> gives
  \<open>Inl\<close>), \<open>modifyHtml\<close> returns the original body unchanged.  \<open>modifyHtml\<close> is a total
  function to strings: it never fails, and its result is either the serialised document
  after all steps of the rewrite or the original body, never something in between.
\<close>

theorem modifyHtml_degrades:
  "(modifyHtml_try env html targetUrl = Inl e \<longrightarrow> modifyHtml env html targetUrl = html)
   \<and> (modifyHtml env html targetUrl = html
        \<or> (\<exists>d parsedUrl d'. load env html = Some d \<and> parseURL env targetUrl = Some parsedUrl
               \<and> modifyDocument env targetUrl parsedUrl d = Inr d'
               \<and> modifyHtml env html targetUrl = toHtml env d'))"
  by (auto simp: modifyHtml_def modifyHtml_try_def split: option.splits sum.splits)

theorem modifyHtml_degrades_witness:
  "modifyHtml_try example_env example_html ''not a url'' = Inl InvalidURL
   \<and> modifyHtml example_env example_html ''not a url'' = example_html"
  using modifyHtml_degrades [of example_env example_html "''not a url''" InvalidURL]
  by (simp add: modifyHtml_try_def example_env_def example_target_def)

section \<open>Script injection\<close>










section \<open>The route handler: validation, admission, upstream status\<close>

lemma handler_rejects_target:
  "\<not> target_allowed env req \<Longrightarrow>
   status (fst (handler env req counts)) \<in> {400, 403, 405}
   \<and> fst (snd (handler env req counts)) = counts
   \<and> snd (snd (handler env req counts)) = []"
  by (auto simp: handler_def target_allowed_def json_error_def split: option.splits)

lemma handler_allowed:
  assumes "target_allowed env req"
  shows "\<exists>targetUrl parsedUrl.
    query_url req = Some targetUrl \<and> url_of env targetUrl = Some parsedUrl \<and>
    handler env req counts =
       (let clientRequests = count_request env (clientIP req) counts;
            counts' = counts(clientIP req \<mapsto> clientRequests)
        in if count clientRequests > RATE_LIMIT env
           then (\<lparr> status = 429, headers = [],
                   body = JsonError ''Too many requests. Please try again later.''
                            (Some (ceil_div (resetTime clientRequests - now env) 1000)) None \<rparr>,
                 counts', [])
           else if query_test req = Some ''true''
           then (case axios_settle (http_head env targetUrl) of
                   Inr r \<Rightarrow> (\<lparr> status = 200, headers = [], body = JsonSuccess \<rparr>,
                             counts', [PROBE targetUrl])
                 | Inl err \<Rightarrow>
                     (\<lparr> status = 400, headers = [],
                        body = JsonError ''Unable to reach the specified website'' None
                                 (Some (message err)) \<rparr>,
                      counts', [PROBE targetUrl]))
           else (case axios_settle (http_get env targetUrl) of
                   Inr r \<Rightarrow> (send_content env req targetUrl parsedUrl r, counts', [FULL targetUrl])
                 | Inl err \<Rightarrow> (handle_error env err, counts', [FULL targetUrl])))"
  using assms
  by (auto simp: handler_def target_allowed_def split: option.splits)

lemma handler_limited:
  assumes "target_allowed env req" "RATE_LIMIT env < count (count_request env (clientIP req) counts)"
  shows "handler env req counts =
           (\<lparr> status = 429, headers = [],
              body = JsonError ''Too many requests. Please try again later.''
                       (Some (ceil_div (resetTime (count_request env (clientIP req) counts) - now env) 1000))
                       None \<rparr>,
            counts(clientIP req \<mapsto> count_request env (clientIP req) counts), [])"
  using handler_allowed [OF assms(1), of counts] assms(2) by (auto simp: Let_def)

lemma handler_fetches:
  assumes "target_allowed env req" "count (count_request env (clientIP req) counts) \<le> RATE_LIMIT env"
    "query_url req = Some targetUrl"
  shows "snd (snd (handler env req counts))
           = [if query_test req = Some ''true'' then PROBE targetUrl else FULL targetUrl]"
proof -
  from handler_allowed [OF assms(1), of counts] assms(3) obtain parsedUrl where
    h: "handler env req counts =
       (let clientRequests = count_request env (clientIP req) counts;
            counts' = counts(clientIP req \<mapsto> clientRequests)
        in if count clientRequests > RATE_LIMIT env
           then (\<lparr> status = 429, headers = [],
                   body = JsonError ''Too many requests. Please try again later.''
                            (Some (ceil_div (resetTime clientRequests - now env) 1000)) None \<rparr>,
                 counts', [])
           else if query_test req = Some ''true''
           then (case axios_settle (http_head env targetUrl) of
                   Inr r \<Rightarrow> (\<lparr> status = 200, headers = [], body = JsonSuccess \<rparr>,
                             counts', [PROBE targetUrl])
                 | Inl err \<Rightarrow>
                     (\<lparr> status = 400, headers = [],
                        body = JsonError ''Unable to reach the specified website'' None
                                 (Some (message err)) \<rparr>,
                      counts', [PROBE targetUrl]))
           else (case axios_settle (http_get env targetUrl) of
                   Inr r \<Rightarrow> (send_content env req targetUrl parsedUrl r, counts', [FULL targetUrl])
                 | Inl err \<Rightarrow> (handle_error env err, counts', [FULL targetUrl])))"
    by auto
  from assms(2) show ?thesis
    by (cases "axios_settle (http_head env targetUrl)"; cases "axios_settle (http_get env targetUrl)")
      (simp_all add: h Let_def)
qed

text \<open>
  Claim C2, as the code has it.  The handler validates the target first and counts the
  request afterwards.  A request whose target fails validation is answered 400, 403 or
  405 without the limiter being consulted: the map of counters is unchanged and nothing
  is fetched.  A request whose target passes validation and whose incremented count
  exceeds \<open>RATE_LIMIT\<close> is answered 429, is counted, and nothing is fetched.  So a 429 is
  only ever given to a request that has passed validation.
\<close>

theorem validation_before_admission:
  "(\<not> target_allowed env req \<longrightarrow>
      status (fst (handler env req counts)) \<in> {400, 403, 405}
      \<and> fst (snd (handler env req counts)) = counts
      \<and> snd (snd (handler env req counts)) = [])
   \<and> (target_allowed env req \<longrightarrow>
        RATE_LIMIT env < count (count_request env (clientIP req) counts) \<longrightarrow>
          status (fst (handler env req counts)) = 429
          \<and> fst (snd (handler env req counts))
              = counts(clientIP req \<mapsto> count_request env (clientIP req) counts)
          \<and> snd (snd (handler env req counts)) = [])
   \<and> (status (fst (handler env req counts)) = 429 \<longrightarrow> target_allowed env req)"
proof -
  have r: "\<not> target_allowed env req \<Longrightarrow>
      status (fst (handler env req counts)) \<in> {400, 403, 405}
      \<and> fst (snd (handler env req counts)) = counts
      \<and> snd (snd (handler env req counts)) = []"
    by (rule handler_rejects_target)
  have l: "target_allowed env req \<Longrightarrow>
        RATE_LIMIT env < count (count_request env (clientIP req) counts) \<Longrightarrow>
          status (fst (handler env req counts)) = 429
          \<and> fst (snd (handler env req counts))
              = counts(clientIP req \<mapsto> count_request env (clientIP req) counts)
          \<and> snd (snd (handler env req counts)) = []"
    by (simp add: handler_limited)
  have o: "status (fst (handler env req counts)) = 429 \<Longrightarrow> target_allowed env req"
    using r by fastforce
  from r l o show ?thesis by blast
qed

lemma example_allowed:
  "target_allowed example_handler_env (get_request ''https://example.com/'')"
  "target_allowed example_handler_env (get_request ''https://example.com/missing'')"
  "target_allowed example_handler_env (get_request ''javascript:alert(1)'')"
  "\<not> target_allowed example_handler_env (get_request ''http://localhost/'')"
  by (simp_all add: target_allowed_def example_handler_env_def get_request_def req0_def
      example_url_of_def blockedHosts_def privateIPRegex_def startsWith_def)

lemma example_clientIP: "clientIP (get_request t) = ''203.0.113.7''"
  by (simp add: clientIP_def get_request_def req0_def js_or_def truthy_def)

theorem validation_before_admission_witness:
  "target_allowed example_handler_env (get_request ''https://example.com/'')
   \<and> RATE_LIMIT example_handler_env
        < count (count_request example_handler_env (clientIP (get_request ''https://example.com/'')) exhausted)
   \<and> status (fst (handler example_handler_env (get_request ''https://example.com/'') exhausted)) = 429
   \<and> snd (snd (handler example_handler_env (get_request ''https://example.com/'') exhausted)) = []
   \<and> \<not> target_allowed example_handler_env (get_request ''http://localhost/'')
   \<and> fst (snd (handler example_handler_env (get_request ''http://localhost/'') exhausted)) = exhausted"
proof -
  have c: "RATE_LIMIT example_handler_env
        < count (count_request example_handler_env (clientIP (get_request ''https://example.com/'')) exhausted)"
    by (simp add: example_clientIP count_request_def exhausted_def example_handler_env_def Let_def
        RATE_WINDOW_def)
  from validation_before_admission [of example_handler_env "get_request ''https://example.com/''" exhausted]
    validation_before_admission [of example_handler_env "get_request ''http://localhost/''" exhausted]
    example_allowed c
  show ?thesis by simp
qed

text \<open>
  Claim C2 as stated fails: client \<open>203.0.113.7\<close> has used up its window, and its
  request for \<open>http://localhost/\<close> is answered by the validation (403), not by the rate
  limiter (429); it is not even counted.
\<close>

theorem admission_first_counterexample:
  "handler example_handler_env (get_request ''http://localhost/'') exhausted
     = (\<lparr> status = 403, headers = [],
          body = JsonError ''Access to local addresses is not allowed'' None None \<rparr>,
        exhausted, [])"
  by (simp add: handler_def get_request_def req0_def example_handler_env_def example_url_of_def
      blockedHosts_def json_error_def)

section \<open>Schemes other than http and https\<close>

lemma trim_Nil: "trim [] = []"
  by (simp add: trim_def)

text \<open>
  The two validators of the repository reject a target that is not \<open>http\<close> or \<open>https\<close>,
  by analysis of the URL alone.  \<open>validateUrl\<close> rejects every URL whose trimmed text is
  not empty, has at most 2048 characters and does not begin with \<open>http://\<close> or
  \<open>https://\<close>; \<open>ProxyHandler.validateUrl\<close> rejects every URL that parses with a scheme
  other than \<open>http\<close> and \<open>https\<close>.  The route handler calls neither of them.
\<close>

lemma validators_reject_other_schemes:
  "(trim u \<noteq> [] \<and> length (trim u) \<le> 2048
      \<and> \<not> startsWith (trim u) ''http://'' \<and> \<not> startsWith (trim u) ''https://'' \<longrightarrow>
    validateUrl isURL parse u
      = \<lparr> isValid = False, error = Some ''URL must start with http:// or https://'' \<rparr>)
   \<and> (parse u = Some parsedUrl \<and> protocol parsedUrl \<noteq> ''http:'' \<and> protocol parsedUrl \<noteq> ''https:'' \<longrightarrow>
    ProxyHandler_validateUrl parse blockedDomains u
      = \<lparr> valid = False, valid_error = Some ''Only HTTP and HTTPS protocols are supported'' \<rparr>)"
proof -
  have "u \<noteq> []" if "trim u \<noteq> []"
    using that trim_Nil by auto
  then show ?thesis
    by (auto simp: validateUrl_def Let_def invalid_def ProxyHandler_validateUrl_def)
qed

lemma trim_javascript: "trim ''javascript:alert(1)'' = ''javascript:alert(1)''"
  by (simp add: trim_def is_ws_def)

lemma validators_reject_javascript:
  "trim ''javascript:alert(1)'' \<noteq> [] \<and> length (trim ''javascript:alert(1)'') \<le> 2048
   \<and> \<not> startsWith (trim ''javascript:alert(1)'') ''http://''
   \<and> \<not> startsWith (trim ''javascript:alert(1)'') ''https://''
   \<and> validateUrl (\<lambda>_. True) example_url_of ''javascript:alert(1)''
        = \<lparr> isValid = False, error = Some ''URL must start with http:// or https://'' \<rparr>
   \<and> map_option protocol (example_url_of ''javascript:alert(1)'') = Some ''javascript:''
   \<and> ProxyHandler_validateUrl example_url_of [] ''javascript:alert(1)''
        = \<lparr> valid = False, valid_error = Some ''Only HTTP and HTTPS protocols are supported'' \<rparr>"
proof -
  have a: "trim ''javascript:alert(1)'' \<noteq> []" by (simp add: trim_javascript)
  have b: "length (trim ''javascript:alert(1)'') \<le> 2048" by (simp add: trim_javascript)
  have c: "\<not> startsWith (trim ''javascript:alert(1)'') ''http://''"
    by (simp add: trim_javascript startsWith_def)
  have d: "\<not> startsWith (trim ''javascript:alert(1)'') ''https://''"
    by (simp add: trim_javascript startsWith_def)
  have e: "example_url_of ''javascript:alert(1)''
             = Some \<lparr> protocol = ''javascript:'', host = [], hostname = [], port = [],
                      pathname = ''alert(1)'', origin = ''null'' \<rparr>"
    by (simp add: example_url_of_def)
  from validators_reject_other_schemes [of "''javascript:alert(1)''" "\<lambda>_. True" example_url_of
      "\<lparr> protocol = ''javascript:'', host = [], hostname = [], port = [],
         pathname = ''alert(1)'', origin = ''null'' \<rparr>" "[]"] a b c d e
  show ?thesis by simp
qed

text \<open>
  Claim C1 (a target whose scheme is not \<open>http\<close> or \<open>https\<close> is rejected with 400 and
  nothing is fetched).  The documentation of the endpoint says "Only HTTP and HTTPS are
  allowed" and both validators reject such a target, but the route handler has no scheme
  check: the request for \<open>javascript:alert(1)\<close> passes its validation and its rate limit,
  the handler hands the URL to the HTTP client (one FULL fetch), and the failure of that
  call is answered with 500.
\<close>

theorem bad_scheme_fetched:
  "handler example_handler_env (get_request ''javascript:alert(1)'') Map.empty
     = (\<lparr> status = 500, headers = [],
          body = JsonError ''An unexpected error occurred while processing your request'' None None \<rparr>,
        [''203.0.113.7'' \<mapsto> \<lparr> count = 1, resetTime = 61000 \<rparr>],
        [FULL ''javascript:alert(1)''])"
  by (simp add: handler_def get_request_def req0_def example_handler_env_def example_url_of_def
      blockedHosts_def privateIPRegex_def startsWith_def clientIP_def js_or_def truthy_def
      count_request_def Let_def RATE_WINDOW_def example_upstream_def axios_settle_def
      handle_error_def)

text \<open>
  For every environment in which the URL parses with a host the handler does not block
  and the client is within its limit, the handler fetches the target, whatever its scheme.
\<close>

lemma handler_fetches_any_scheme:
  assumes "req_method req = ''GET''" "query_url req = Some targetUrl" "targetUrl \<noteq> []"
    "url_of env targetUrl = Some parsedUrl" "hostname parsedUrl = []"
    "count (count_request env (clientIP req) counts) \<le> RATE_LIMIT env"
  shows "snd (snd (handler env req counts))
           = [if query_test req = Some ''true'' then PROBE targetUrl else FULL targetUrl]"
proof -
  have "target_allowed env req"
    using assms(1-5)
    by (simp add: target_allowed_def blockedHosts_def privateIPRegex_def startsWith_def)
  from handler_fetches [OF this assms(6) assms(2)] show ?thesis .
qed

section \<open>Upstream status codes\<close>

lemma upstream_5xx_gives_502:
  assumes "target_allowed env req" "count (count_request env (clientIP req) counts) \<le> RATE_LIMIT env"
    "query_url req = Some targetUrl" "query_test req \<noteq> Some ''true''"
    "http_get env targetUrl = Responded st hs data" "500 \<le> st"
  shows "fst (handler env req counts) = json_error 502 ''Target website server error''"
proof -
  from assms(5,6) have s: "axios_settle (http_get env targetUrl)
      = Inl \<lparr> code = (if st div 100 = 5 then Some ''ERR_BAD_RESPONSE'' else None),
              response_status = Some st, has_request = True, message = ''Request failed'' \<rparr>"
    by (simp add: axios_settle_def)
  from assms(6) have e: "handle_error env \<lparr> code = (if st div 100 = 5 then Some ''ERR_BAD_RESPONSE'' else None),
              response_status = Some st, has_request = True, message = ''Request failed'' \<rparr>
            = json_error 502 ''Target website server error''"
    by (simp add: handle_error_def)
  from handler_allowed [OF assms(1), of counts] assms(2,3,4) s e show ?thesis
    by (auto simp: Let_def)
qed

lemma upstream_below_500_gives_200:
  assumes "target_allowed env req" "count (count_request env (clientIP req) counts) \<le> RATE_LIMIT env"
    "query_url req = Some targetUrl" "query_test req \<noteq> Some ''true''"
    "http_get env targetUrl = Responded st hs data" "st < 500"
    "valid_header_value targetUrl" "list_all (\<lambda>(k, v). valid_header_value v) hs"
  shows "status (fst (handler env req counts)) = 200"
proof -
  from assms(5,6) have s: "axios_settle (http_get env targetUrl)
      = Inr \<lparr> resp_status = st, resp_headers = hs, resp_data = data \<rparr>"
    by (simp add: axios_settle_def)
  have v: "valid_header_value
     (case js_or (map_of hs ''content-type'') (Some ''text/html'') of Some ct \<Rightarrow> ct | None \<Rightarrow> ''text/html'')"
  proof (cases "map_of hs ''content-type''")
    case None
    then show ?thesis by (simp add: js_or_def truthy_def valid_header_value_def)
  next
    case (Some ct)
    then have "(''content-type'', ct) \<in> set hs" by (rule map_of_SomeD)
    with assms(8) have "valid_header_value ct" by (auto simp: list_all_iff)
    with Some show ?thesis by (simp add: js_or_def truthy_def valid_header_value_def)
  qed
  have "status (send_content env req targetUrl p \<lparr> resp_status = st, resp_headers = hs, resp_data = data \<rparr>) = 200" for p
    using v assms(7) by (simp add: send_content_def Let_def)
  with handler_allowed [OF assms(1), of counts] assms(2,3,4) s show ?thesis
    by (auto simp: Let_def)
qed

text \<open>
  Claim C5 (an upstream 404 reaches the client as 404).  The \<open>catch\<close> block of the handler
  answers 404 for an error that carries a 404 response, and the documentation of the
  endpoint lists "Not Found (404): Target website not found"; but the client is called with
  \<open>validateStatus: status => status < 500\<close>, so a 404 is no error: the call resolves, and
  the handler sends the upstream body (with the widget script appended) with status 200.
\<close>

theorem upstream_404_sent_as_200:
  "fst (handler example_handler_env (get_request ''https://example.com/missing'') Map.empty)
     = \<lparr> status = 200,
         headers = [(''Content-Type'', ''text/html''),
                    (''X-Proxied-URL'', ''https://example.com/missing''),
                    (''Access-Control-Allow-Origin'', ''*''),
                    (''Access-Control-Allow-Methods'', ''GET, POST, PUT, DELETE, OPTIONS''),
                    (''Access-Control-Allow-Headers'', ''Content-Type, Authorization'')],
         body = Content ''<h1>Not Found</h1><script src=\"http://localhost:3000/widget.js\"></script>'' \<rparr>
   \<and> snd (snd (handler example_handler_env (get_request ''https://example.com/missing'') Map.empty))
     = [FULL ''https://example.com/missing'']
   \<and> http_get example_handler_env ''https://example.com/missing''
     = Responded 404 [(''content-type'', ''text/html'')] ''<h1>Not Found</h1>''"
  by code_simp

section \<open>The inline rewriting of relative links\<close>

text \<open>
  Claim C6 (all matching occurrences are rewritten).  The attribute loop of
  \<open>HtmlModifier.fixUrls\<close> rewrites every occurrence (\<open>attribute_loop_rewrites_all\<close>), but the
  route handler uses two regular expressions without the flag \<open>g\<close>: of two links with
  relative targets only the first is rewritten.
\<close>

theorem inline_rewrite_first_only:
  "rewrite_inline ''https://example.com'' ''https://example.com/'' ''http'' ''localhost:3000''
       ''<a href=\"/a\">A</a><a href=\"/b\">B</a>''
     = ''<a href=\"https://example.com/a\">A</a><a href=\"/b\">B</a><script src=\"http://localhost:3000/widget.js\"></script>''
   \<and> body (fst (handler example_handler_env (get_request ''https://example.com/'') Map.empty))
     = Content ''<a href=\"https://example.com/a\">A</a><a href=\"/b\">B</a><script src=\"http://localhost:3000/widget.js\"></script>''"
  by code_simp

text \<open>
  The same expressions also match a protocol-relative link, which begins with a slash:
  the first such link is prefixed with the origin of the target.
\<close>

lemma inline_rewrite_protocol_relative:
  "rewrite_inline ''https://example.com'' ''https://example.com/'' ''http'' ''localhost:3000''
       ''<a href=\"//cdn.example.net/lib.js\">L</a>''
     = ''<a href=\"https://example.com//cdn.example.net/lib.js\">L</a><script src=\"http://localhost:3000/widget.js\"></script>''"
  by code_simp

end
